theory Spec2Isabelle
  imports Complex_Main "HOL-Library.Sublist"
begin

section \<open>JavaScript values and the operations index.js applies to them\<close>

text \<open>
  The server is one JavaScript module, \<^verbatim>\<open>index.js\<close>. Its request handler receives a tool
  name (a string) and the tool arguments (a JSON object, or \<^verbatim>\<open>undefined\<close> when the request
  carries none) and talks to two backends. Values are modelled as they reach the handler,
  after JSON parsing:
  \<^item> a number is a rational (\<open>JNum\<close>; every finite double is one) or an infinity
    (\<open>JInfinity\<close>, negative or not, which is what JSON text such as \<^verbatim>\<open>1e999\<close> parses to): the
    handler never computes with numbers, it tests them for truthiness, passes them on and
    converts them to strings, and the conversion of a finite number belongs to the platform;
  \<^item> a string is the list of the bytes of its UTF-8 encoding, where a surrogate half that
    has no partner (which UTF-8 proper cannot encode) is written in the same scheme as the
    three bytes \<^verbatim>\<open>ED A0..BF 80..BF\<close>, and a high half followed by its low half is always
    written as the one four-byte code of the character;
  \<^item> an object is the list of its own properties in enumeration order.
\<close>

datatype jsval =
    JUndefined
  | JNull
  | JBool bool
  | JNum rat
  | JInfinity (negative: bool)
  | JStr string
  | JArr "jsval list"
  | JObj "(string \<times> jsval) list"

text \<open>Thrown values are \<^verbatim>\<open>Error\<close> objects; the handler reads only their \<^verbatim>\<open>message\<close>.\<close>

datatype exn = Error string | TypeError string | URIError string

fun message :: "exn \<Rightarrow> string" where
  "message (Error m) = m"
| "message (TypeError m) = m"
| "message (URIError m) = m"

definition ebind :: "exn + 'a \<Rightarrow> ('a \<Rightarrow> exn + 'b) \<Rightarrow> exn + 'b" where
  "ebind m f = (case m of Inl e \<Rightarrow> Inl e | Inr x \<Rightarrow> f x)"

fun truthy :: "jsval \<Rightarrow> bool" where
  "truthy JUndefined = False"
| "truthy JNull = False"
| "truthy (JBool b) = b"
| "truthy (JNum n) = (n \<noteq> 0)"
| "truthy (JInfinity b) = True"
| "truthy (JStr s) = (s \<noteq> [])"
| "truthy (JArr xs) = True"
| "truthy (JObj kvs) = True"

fun nullish :: "jsval \<Rightarrow> bool" where
  "nullish JUndefined = True"
| "nullish JNull = True"
| "nullish v = False"

text \<open>\<^verbatim>\<open>a || b\<close>\<close>

definition js_or :: "jsval \<Rightarrow> jsval \<Rightarrow> jsval" where
  "js_or a b = (if truthy a then a else b)"

text \<open>
  \<^verbatim>\<open>v.k\<close> for a value that is not null or undefined. None of the property names index.js
  reads is defined on a prototype of a JSON value, so anything but an own property of an
  object reads as \<^verbatim>\<open>undefined\<close>.
\<close>

fun lookup_prop :: "jsval \<Rightarrow> string \<Rightarrow> jsval" where
  "lookup_prop (JObj kvs) k = (case map_of kvs k of None \<Rightarrow> JUndefined | Some v \<Rightarrow> v)"
| "lookup_prop v k = JUndefined"

definition quote :: string where
  "quote = [CHR 0x27]"

text \<open>\<^verbatim>\<open>v.k\<close> in general: reading a property of null or undefined throws (V8's message).\<close>

definition read_prop :: "jsval \<Rightarrow> string \<Rightarrow> exn + jsval" where
  "read_prop v k =
     (if nullish v
      then Inl (TypeError (''Cannot read properties of ''
                 @ (if v = JNull then ''null'' else ''undefined'')
                 @ '' (reading '' @ quote @ k @ quote @ '')''))
      else Inr (lookup_prop v k))"

subsection \<open>Code units\<close>

text \<open>
  JavaScript indexes a string by UTF-16 code units. \<open>utf16_units s\<close> lists the code units of
  \<open>s\<close>, each as the string that holds just that unit: a code of one, two or three bytes is
  one unit, and a four-byte code is two units, the high and the low surrogate half, each of
  which stands alone in its one-unit string and is written in three bytes.
\<close>

definition three_bytes :: "nat \<Rightarrow> string" where
  "three_bytes u =
     [char_of (224 + u div 4096), char_of (128 + (u div 64) mod 64), char_of (128 + u mod 64)]"

definition four_bytes :: "nat \<Rightarrow> string" where
  "four_bytes cp =
     [char_of (240 + cp div 262144), char_of (128 + (cp div 4096) mod 64),
      char_of (128 + (cp div 64) mod 64), char_of (128 + cp mod 64)]"

fun surrogate_halves :: "string \<Rightarrow> string list" where
  "surrogate_halves (b1 # b2 # b3 # b4 # r) =
     (let cp = ((of_char b1 :: nat) mod 8) * 262144 + ((of_char b2 :: nat) mod 64) * 4096
               + ((of_char b3 :: nat) mod 64) * 64 + (of_char b4 :: nat) mod 64
      in [three_bytes (55296 + (cp - 65536) div 1024),
          three_bytes (56320 + (cp - 65536) mod 1024)])"
| "surrogate_halves s = [s]"

function utf16_units :: "string \<Rightarrow> string list" where
  "utf16_units [] = []"
| "utf16_units (b # bs) =
     (if (of_char b :: nat) < 192 then [b] # utf16_units bs
      else if (of_char b :: nat) < 224 then (b # take 1 bs) # utf16_units (drop 1 bs)
      else if (of_char b :: nat) < 240 then (b # take 2 bs) # utf16_units (drop 2 bs)
      else surrogate_halves (b # take 3 bs) @ utf16_units (drop 3 bs))"
  by pat_completeness auto
termination
  by (relation "measure length") auto

text \<open>
  Putting strings together can bring a high half and a low half next to each other; the
  two are then one character. \<open>canonical\<close> rewrites every such pair of three-byte halves as
  the four-byte code.
\<close>

fun canonical :: "string \<Rightarrow> string" where
  "canonical (a # b # c # d # e # f # r) =
     (if a = CHR 0xED \<and> 160 \<le> (of_char b :: nat) \<and> (of_char b :: nat) < 176
         \<and> d = CHR 0xED \<and> 176 \<le> (of_char e :: nat)
      then four_bytes (65536
             + ((((of_char b :: nat) mod 64) * 64 + (of_char c :: nat) mod 64) - 2048) * 1024
             + ((((of_char e :: nat) mod 64) * 64 + (of_char f :: nat) mod 64) - 3072))
           @ canonical r
      else a # canonical (b # c # d # e # f # r))"
| "canonical s = s"

text \<open>
  A surrogate half is three bytes that begin \<^verbatim>\<open>ED A0..BF\<close> (the other codes that begin with
  \<^verbatim>\<open>ED\<close> go on with \<^verbatim>\<open>80..9F\<close>), and since the halves of a pair are always written as one
  four-byte code, each one that a string holds is without its partner.
\<close>

fun has_lone_surrogate :: "string \<Rightarrow> bool" where
  "has_lone_surrogate (a # b # r) =
     ((a = CHR 0xED \<and> 160 \<le> (of_char b :: nat)) \<or> has_lone_surrogate (b # r))"
| "has_lone_surrogate s = False"

text \<open>\<^verbatim>\<open>v?.k\<close> and \<^verbatim>\<open>v?.[0]\<close>\<close>

definition opt_prop :: "jsval \<Rightarrow> string \<Rightarrow> jsval" where
  "opt_prop v k = (if nullish v then JUndefined else lookup_prop v k)"

fun opt_first :: "jsval \<Rightarrow> jsval" where
  "opt_first (JArr (x # xs)) = x"
| "opt_first (JStr s) = (case utf16_units s of [] \<Rightarrow> JUndefined | u # us \<Rightarrow> JStr u)"
| "opt_first (JObj kvs) = lookup_prop (JObj kvs) ''0''"
| "opt_first v = JUndefined"

subsection \<open>Conversion to strings\<close>

definition digit_char :: "nat \<Rightarrow> char" where
  "digit_char d = ''0123456789'' ! d"

function show_nat :: "nat \<Rightarrow> string" where
  "show_nat n = (if n < 10 then [digit_char n] else show_nat (n div 10) @ [digit_char (n mod 10)])"
  by pat_completeness auto
termination
  by (relation "measure id") auto

declare show_nat.simps [simp del]

text \<open>
  \<^verbatim>\<open>String(v)\<close>, which is also what a template literal applies to \<^verbatim>\<open>${v}\<close>. The first
  argument is the platform's conversion of a number. An object that has a property of its
  own named \<^verbatim>\<open>toString\<close> (which in a JSON value is never a function) cannot be converted,
  and an array is the conversions of its elements, the empty string for null and undefined,
  joined by commas.
\<close>

fun to_string :: "(rat \<Rightarrow> string) \<Rightarrow> jsval \<Rightarrow> exn + string"
  and join_elements :: "(rat \<Rightarrow> string) \<Rightarrow> jsval list \<Rightarrow> exn + string" where
  "to_string shown JUndefined = Inr ''undefined''"
| "to_string shown JNull = Inr ''null''"
| "to_string shown (JBool b) = Inr (if b then ''true'' else ''false'')"
| "to_string shown (JNum n) = Inr (shown n)"
| "to_string shown (JInfinity b) = Inr (if b then ''-Infinity'' else ''Infinity'')"
| "to_string shown (JStr s) = Inr s"
| "to_string shown (JArr xs) = join_elements shown xs"
| "to_string shown (JObj kvs) =
     (if map_of kvs ''toString'' \<noteq> None
      then Inl (TypeError ''Cannot convert object to primitive value'')
      else Inr ''[object Object]'')"
| "join_elements shown [] = Inr []"
| "join_elements shown (x # xs) =
     (case (if nullish x then Inr [] else to_string shown x) of
        Inl e \<Rightarrow> Inl e
      | Inr s \<Rightarrow>
          (if xs = [] then Inr s
           else (case join_elements shown xs of
                   Inl e \<Rightarrow> Inl e
                 | Inr r \<Rightarrow> Inr (s @ '','' @ r))))"

subsection \<open>encodeURIComponent\<close>

definition uri_unreserved :: "char \<Rightarrow> bool" where
  "uri_unreserved c =
     (c \<in> set (''ABCDEFGHIJKLMNOPQRSTUVWXYZabcdefghijklmnopqrstuvwxyz0123456789-_.!~*()'' @ quote))"

definition hex_char :: "nat \<Rightarrow> char" where
  "hex_char d = ''0123456789ABCDEF'' ! d"

definition percent_byte :: "char \<Rightarrow> string" where
  "percent_byte c =
     [CHR ''%'', hex_char ((of_char c :: nat) div 16), hex_char ((of_char c :: nat) mod 16)]"

text \<open>A surrogate half without its partner makes \<^verbatim>\<open>encodeURIComponent\<close> throw.\<close>

definition encodeURIComponent :: "string \<Rightarrow> exn + string" where
  "encodeURIComponent s =
     (if has_lone_surrogate s then Inl (URIError ''URI malformed'')
      else Inr (concat (map (\<lambda>c. if uri_unreserved c then [c] else percent_byte c) s)))"

subsection \<open>String.prototype.replace and includes, with string patterns\<close>

text \<open>
  \<open>find_split pat s\<close> is the first occurrence of \<open>pat\<close> in \<open>s\<close>: what stands before it and
  what stands after it.
\<close>

fun find_split :: "string \<Rightarrow> string \<Rightarrow> (string \<times> string) option" where
  "find_split pat [] = (if pat = [] then Some ([], []) else None)"
| "find_split pat (c # cs) =
     (if prefix pat (c # cs) then Some ([], drop (length pat) (c # cs))
      else map_option (\<lambda>(a, b). (c # a, b)) (find_split pat cs))"

definition includes_str :: "string \<Rightarrow> string \<Rightarrow> bool" where
  "includes_str s pat = (find_split pat s \<noteq> None)"

text \<open>
  The replacement text of \<^verbatim>\<open>replace\<close> is not taken literally: \<^verbatim>\<open>$$\<close> stands for a dollar
  sign, \<^verbatim>\<open>$&\<close> for the match, \<^verbatim>\<open>$`\<close> for what precedes it and \<^verbatim>\<open>$'\<close> for what follows.
  A string pattern has no capture groups, so every other \<^verbatim>\<open>$\<close> stands for itself.
\<close>

fun get_substitution :: "string \<Rightarrow> string \<Rightarrow> string \<Rightarrow> string \<Rightarrow> string" where
  "get_substitution matched pre post [] = []"
| "get_substitution matched pre post [c] = [c]"
| "get_substitution matched pre post (c # d # r) =
     (if c = CHR ''$'' \<and> d = CHR ''$'' then CHR ''$'' # get_substitution matched pre post r
      else if c = CHR ''$'' \<and> d = CHR ''&'' then matched @ get_substitution matched pre post r
      else if c = CHR ''$'' \<and> d = CHR ''`'' then pre @ get_substitution matched pre post r
      else if c = CHR ''$'' \<and> d = CHR 0x27 then post @ get_substitution matched pre post r
      else c # get_substitution matched pre post (d # r))"

text \<open>\<^verbatim>\<open>s.replace(pat, repl)\<close> with a string \<open>pat\<close>: the first occurrence only.\<close>

definition js_replace :: "string \<Rightarrow> string \<Rightarrow> string \<Rightarrow> string" where
  "js_replace s pat repl =
     (case find_split pat s of
        None \<Rightarrow> s
      | Some (pre, post) \<Rightarrow> canonical (pre @ get_substitution pat pre post repl @ post))"

text \<open>
  \<^verbatim>\<open>Object.entries(v)\<close> for a truthy \<open>v\<close> (the only call is guarded by \<^verbatim>\<open>if (args.path_params)\<close>):
  the own properties of an object, the indexed elements of an array, the indexed code units
  of a string, nothing for a number or a boolean.
\<close>

fun indexed :: "nat \<Rightarrow> jsval list \<Rightarrow> (string \<times> jsval) list" where
  "indexed i [] = []"
| "indexed i (x # xs) = (show_nat i, x) # indexed (Suc i) xs"

fun object_entries :: "jsval \<Rightarrow> (string \<times> jsval) list" where
  "object_entries (JObj kvs) = kvs"
| "object_entries (JArr xs) = indexed 0 xs"
| "object_entries (JStr s) = indexed 0 (map JStr (utf16_units s))"
| "object_entries v = []"


section \<open>Configuration, backends and what a call leaves behind\<close>

text \<open>
  The module reads its configuration from the environment once, when it is loaded; a
  variable is a string or is not set.
\<close>

record config =
  IBM_CLOUD_API_KEY :: "string option"
  KEY_PROTECT_INSTANCE_ID :: "string option"
  env_KEY_PROTECT_URL :: "string option"
  ZOS_CONNECT_URL :: "string option"
  ZOS_CONNECT_USERNAME :: "string option"
  ZOS_CONNECT_PASSWORD :: "string option"

fun env_truthy :: "string option \<Rightarrow> bool" where
  "env_truthy None = False"
| "env_truthy (Some s) = (s \<noteq> [])"

fun env_js :: "string option \<Rightarrow> jsval" where
  "env_js None = JUndefined"
| "env_js (Some s) = JStr s"

fun env_str :: "string option \<Rightarrow> string" where
  "env_str None = ''undefined''"
| "env_str (Some s) = s"

text \<open>\<^verbatim>\<open>process.env.KEY_PROTECT_URL || "https://us-south.kms.cloud.ibm.com"\<close>\<close>

definition KEY_PROTECT_URL :: "config \<Rightarrow> string" where
  "KEY_PROTECT_URL cfg =
     (if env_truthy (env_KEY_PROTECT_URL cfg) then env_str (env_KEY_PROTECT_URL cfg)
      else ''https://us-south.kms.cloud.ibm.com'')"

text \<open>The methods of the Key Protect SDK client that the handler calls.\<close>

datatype kp_method =
  GetKeys | CreateKey | GetKey | WrapKey | UnwrapKey | RotateKey | DeleteKey | GetKeyMetadata

datatype kp_client = KpClient (apikey: string) (serviceUrl: string)

text \<open>
  What the \<^verbatim>\<open>text\<close> of a content item can be: a string the handler wrote itself, the string
  \<^verbatim>\<open>JSON.stringify(v, null, 2)\<close> of a value \<open>v\<close> other than \<^verbatim>\<open>undefined\<close> (the serializer
  belongs to the platform and is not modelled), or no string at all: \<^verbatim>\<open>JSON.stringify\<close>
  returns the value \<^verbatim>\<open>undefined\<close> when it is given \<^verbatim>\<open>undefined\<close>.
\<close>

datatype rendered = Plain string | Stringified jsval | NoText

definition stringify :: "jsval \<Rightarrow> rendered" where
  "stringify v = (if v = JUndefined then NoText else Stringified v)"

record http_request =
  req_url :: string
  req_method :: jsval
  req_headers :: "(string \<times> string) list"
  req_body :: "rendered option"

record http_response =
  resp_ok :: bool
  resp_status :: nat
  resp_content_type :: "string option"
  resp_text :: "exn + string"
  resp_json :: "exn + jsval"

text \<open>
  Everything outside the module is a parameter: the SDK's constructors (which may throw
  on a malformed credential), the SDK's methods (\<open>Inl\<close> is a rejected promise, \<open>Inr\<close> the
  \<^verbatim>\<open>result\<close> of the response), \<^verbatim>\<open>fetch\<close>, the base64 encoder, \<^verbatim>\<open>URLSearchParams\<close> and the
  conversion of a number to a string. A backend is whatever it is at the time of the call.
\<close>

record platform =
  new_client :: "string \<Rightarrow> string \<Rightarrow> exn option"
  sdk :: "kp_client \<Rightarrow> kp_method \<Rightarrow> jsval \<Rightarrow> exn + jsval"
  fetch :: "http_request \<Rightarrow> exn + http_response"
  base64 :: "string \<Rightarrow> string"
  url_search_params :: "jsval \<Rightarrow> exn + string"
  number_to_string :: "rat \<Rightarrow> string"

text \<open>
  The calls of SDK methods and of \<^verbatim>\<open>fetch\<close> that the handler has made, in order, each with
  the argument it was given: the observable effect of the handler. What the SDK or \<^verbatim>\<open>fetch\<close>
  does with a call lies outside the module.
\<close>

datatype call = KpCall kp_method jsval | Fetch http_request

type_synonym 'a traced = "(exn + 'a) \<times> call list"

record content_item =
  item_type :: string
  item_text :: rendered

definition text_content :: "rendered \<Rightarrow> content_item list" where
  "text_content t = [\<lparr>item_type = ''text'', item_text = t\<rparr>]"

definition returned :: "rendered traced \<Rightarrow> content_item list traced" where
  "returned r = (case fst r of Inl e \<Rightarrow> (Inl e, snd r) | Inr t \<Rightarrow> (Inr (text_content t), snd r))"

section \<open>The Key Protect client handle\<close>

text \<open>
  \<^verbatim>\<open>keyProtectClient\<close> is a module variable, \<^verbatim>\<open>null\<close> until the first successful
  construction. The function returns the handle and the new value of the variable.
\<close>

definition getKeyProtectClient ::
  "config \<Rightarrow> platform \<Rightarrow> kp_client option \<Rightarrow> (exn + kp_client option) \<times> kp_client option" where
  "getKeyProtectClient cfg pf keyProtectClient =
     (if keyProtectClient = None \<and> env_truthy (IBM_CLOUD_API_KEY cfg)
           \<and> env_truthy (KEY_PROTECT_INSTANCE_ID cfg)
      then (case new_client pf (env_str (IBM_CLOUD_API_KEY cfg)) (KEY_PROTECT_URL cfg) of
              Some e \<Rightarrow> (Inl e, None)
            | None \<Rightarrow>
                (let c = KpClient (env_str (IBM_CLOUD_API_KEY cfg)) (KEY_PROTECT_URL cfg)
                 in (Inr (Some c), Some c)))
      else (Inr keyProtectClient, keyProtectClient))"

section \<open>Key Protect tool handlers\<close>

text \<open>
  One SDK call: the argument object is built first (building it may throw, and then the
  SDK is not called), the call is awaited, and the response is turned into the text of the
  result (which may throw as well, after the call).
\<close>

definition kp_invoke ::
  "platform \<Rightarrow> kp_client \<Rightarrow> kp_method \<Rightarrow> exn + jsval \<Rightarrow> (jsval \<Rightarrow> exn + rendered)
     \<Rightarrow> rendered traced" where
  "kp_invoke pf c m params cont =
     (case params of
        Inl e \<Rightarrow> (Inl e, [])
      | Inr p \<Rightarrow>
          (case sdk pf c m p of
             Inl e \<Rightarrow> (Inl e, [KpCall m p])
           | Inr res \<Rightarrow> (cont res, [KpCall m p])))"

fun map_e :: "('a \<Rightarrow> exn + 'b) \<Rightarrow> 'a list \<Rightarrow> exn + 'b list" where
  "map_e f [] = Inr []"
| "map_e f (x # xs) = ebind (f x) (\<lambda>y. ebind (map_e f xs) (\<lambda>ys. Inr (y # ys)))"

definition key_summary :: "jsval \<Rightarrow> exn + jsval" where
  "key_summary k =
     ebind (read_prop k ''id'') (\<lambda>kid.
       Inr (JObj [(''id'', kid),
                  (''name'', lookup_prop k ''name''),
                  (''type'', lookup_prop k ''type''),
                  (''state'', lookup_prop k ''state''),
                  (''extractable'', lookup_prop k ''extractable''),
                  (''crn'', lookup_prop k ''crn''),
                  (''createdBy'', lookup_prop k ''createdBy''),
                  (''creationDate'', lookup_prop k ''creationDate''),
                  (''lastRotateDate'', lookup_prop k ''lastRotateDate''),
                  (''deleted'', lookup_prop k ''deleted'')]))"

text \<open>\<^verbatim>\<open>resources?.map(k => ({...})) || []\<close>\<close>

definition summarize_keys :: "jsval \<Rightarrow> exn + jsval list" where
  "summarize_keys rs =
     (if nullish rs then Inr []
      else (case rs of
              JArr xs \<Rightarrow> map_e key_summary xs
            | _ \<Rightarrow> Inl (TypeError ''response.result.resources?.map is not a function'')))"

definition key_protect_list_keys ::
  "config \<Rightarrow> platform \<Rightarrow> kp_client \<Rightarrow> jsval \<Rightarrow> rendered traced" where
  "key_protect_list_keys cfg pf c args =
     kp_invoke pf c GetKeys
       (ebind (read_prop args ''limit'') (\<lambda>limit.
          Inr (JObj [(''bluemixInstance'', env_js (KEY_PROTECT_INSTANCE_ID cfg)),
                     (''limit'', js_or limit (JNum 100)),
                     (''offset'', js_or (lookup_prop args ''offset'') (JNum 0)),
                     (''state'', lookup_prop args ''state'')])))
       (\<lambda>res.
          ebind (read_prop res ''resources'') (\<lambda>rs.
          ebind (summarize_keys rs) (\<lambda>keys.
            Inr (Stringified (JObj [(''total'', JNum (of_nat (length keys))),
                                    (''keys'', JArr keys)])))))"

definition kms_key_json :: string where
  "kms_key_json = ''application/vnd.ibm.kms.key+json''"

definition dquote :: string where
  "dquote = [CHR 0x22]"

definition keyResource :: "jsval \<Rightarrow> jsval \<Rightarrow> jsval" where
  "keyResource ktype args =
     (let isRootKey = (ktype = JStr ''root_key'') in
      JObj ([(''type'', JStr kms_key_json),
             (''name'', lookup_prop args ''name''),
             (''extractable'',
                if isRootKey then JBool False
                else js_or (lookup_prop args ''extractable'') (JBool False))]
            @ (if truthy (lookup_prop args ''description'')
               then [(''description'', lookup_prop args ''description'')] else [])
            @ (if truthy (lookup_prop args ''payload'')
               then [(''payload'', lookup_prop args ''payload'')] else [])))"

definition key_protect_create_key ::
  "config \<Rightarrow> platform \<Rightarrow> kp_client \<Rightarrow> jsval \<Rightarrow> rendered traced" where
  "key_protect_create_key cfg pf c args =
     kp_invoke pf c CreateKey
       (ebind (read_prop args ''type'') (\<lambda>ktype.
          Inr (JObj [(''bluemixInstance'', env_js (KEY_PROTECT_INSTANCE_ID cfg)),
                     (''keyCreateBody'',
                        JObj [(''metadata'',
                                 JObj [(''collectionType'', JStr kms_key_json),
                                       (''collectionTotal'', JNum 1)]),
                              (''resources'', JArr [keyResource ktype args])])])))
       (\<lambda>res.
          ebind (to_string (number_to_string pf) (lookup_prop args ''name'')) (\<lambda>name.
          ebind (read_prop res ''resources'') (\<lambda>rs.
            (let r0 = opt_first rs in
             Inr (Stringified (JObj
               [(''message'', JStr (''Key '' @ dquote @ name @ dquote
                                    @ '' created successfully'')),
                (''key'', JObj [(''id'', opt_prop r0 ''id''),
                                (''name'', opt_prop r0 ''name''),
                                (''type'', opt_prop r0 ''type''),
                                (''crn'', opt_prop r0 ''crn'')])]))))))"

definition key_protect_get_key ::
  "config \<Rightarrow> platform \<Rightarrow> kp_client \<Rightarrow> jsval \<Rightarrow> rendered traced" where
  "key_protect_get_key cfg pf c args =
     kp_invoke pf c GetKey
       (ebind (read_prop args ''key_id'') (\<lambda>key_id.
          Inr (JObj [(''bluemixInstance'', env_js (KEY_PROTECT_INSTANCE_ID cfg)),
                     (''id'', key_id)])))
       (\<lambda>res.
          ebind (read_prop res ''resources'') (\<lambda>rs. Inr (stringify (opt_first rs))))"

definition key_protect_wrap_key ::
  "config \<Rightarrow> platform \<Rightarrow> kp_client \<Rightarrow> jsval \<Rightarrow> rendered traced" where
  "key_protect_wrap_key cfg pf c args =
     kp_invoke pf c WrapKey
       (ebind (read_prop args ''plaintext'') (\<lambda>plaintext.
          (let keyActionWrapBody =
                 JObj ([(''plaintext'', plaintext)]
                       @ (if truthy (lookup_prop args ''aad'')
                          then [(''aad'', lookup_prop args ''aad'')] else []))
           in Inr (JObj [(''id'', lookup_prop args ''key_id''),
                         (''bluemixInstance'', env_js (KEY_PROTECT_INSTANCE_ID cfg)),
                         (''keyActionWrapBody'', keyActionWrapBody)]))))
       (\<lambda>res.
          ebind (read_prop res ''ciphertext'') (\<lambda>ciphertext.
            Inr (Stringified (JObj [(''message'', JStr ''Key wrapped successfully''),
                                    (''ciphertext'', ciphertext),
                                    (''keyVersion'', lookup_prop res ''keyVersion'')]))))"

definition key_protect_unwrap_key ::
  "config \<Rightarrow> platform \<Rightarrow> kp_client \<Rightarrow> jsval \<Rightarrow> rendered traced" where
  "key_protect_unwrap_key cfg pf c args =
     kp_invoke pf c UnwrapKey
       (ebind (read_prop args ''ciphertext'') (\<lambda>ciphertext.
          (let keyActionUnwrapBody =
                 JObj ([(''ciphertext'', ciphertext)]
                       @ (if truthy (lookup_prop args ''aad'')
                          then [(''aad'', lookup_prop args ''aad'')] else []))
           in Inr (JObj [(''id'', lookup_prop args ''key_id''),
                         (''bluemixInstance'', env_js (KEY_PROTECT_INSTANCE_ID cfg)),
                         (''keyActionUnwrapBody'', keyActionUnwrapBody)]))))
       (\<lambda>res.
          ebind (read_prop res ''plaintext'') (\<lambda>plaintext.
            Inr (Stringified (JObj [(''message'', JStr ''Key unwrapped successfully''),
                                    (''plaintext'', plaintext),
                                    (''keyVersion'', lookup_prop res ''keyVersion'')]))))"

definition key_protect_rotate_key ::
  "config \<Rightarrow> platform \<Rightarrow> kp_client \<Rightarrow> jsval \<Rightarrow> rendered traced" where
  "key_protect_rotate_key cfg pf c args =
     kp_invoke pf c RotateKey
       (ebind (read_prop args ''key_id'') (\<lambda>key_id.
          Inr (JObj ([(''id'', key_id),
                      (''bluemixInstance'', env_js (KEY_PROTECT_INSTANCE_ID cfg))]
                     @ (if truthy (lookup_prop args ''payload'')
                        then [(''keyActionRotateBody'',
                                 JObj [(''payload'', lookup_prop args ''payload'')])]
                        else [])))))
       (\<lambda>res.
          ebind (to_string (number_to_string pf) (lookup_prop args ''key_id'')) (\<lambda>key_id.
            Inr (Stringified (JObj
              [(''message'', JStr (''Key '' @ key_id @ '' rotated successfully'')),
               (''keyId'', lookup_prop args ''key_id'')]))))"

definition key_protect_delete_key ::
  "config \<Rightarrow> platform \<Rightarrow> kp_client \<Rightarrow> jsval \<Rightarrow> rendered traced" where
  "key_protect_delete_key cfg pf c args =
     kp_invoke pf c DeleteKey
       (ebind (read_prop args ''key_id'') (\<lambda>key_id.
          Inr (JObj [(''bluemixInstance'', env_js (KEY_PROTECT_INSTANCE_ID cfg)),
                     (''id'', key_id),
                     (''force'', js_or (lookup_prop args ''force'') (JBool False))])))
       (\<lambda>res.
          ebind (to_string (number_to_string pf) (lookup_prop args ''key_id'')) (\<lambda>key_id.
            Inr (Stringified (JObj
              [(''message'', JStr (''Key '' @ key_id @ '' deleted successfully'')),
               (''warning'', JStr ''This action is irreversible. Data encrypted with this key is now unrecoverable.'')]))))"

definition key_protect_get_key_policies ::
  "config \<Rightarrow> platform \<Rightarrow> kp_client \<Rightarrow> jsval \<Rightarrow> rendered traced" where
  "key_protect_get_key_policies cfg pf c args =
     kp_invoke pf c GetKeyMetadata
       (ebind (read_prop args ''key_id'') (\<lambda>key_id.
          Inr (JObj [(''bluemixInstance'', env_js (KEY_PROTECT_INSTANCE_ID cfg)),
                     (''id'', key_id)])))
       (\<lambda>res. Inr (stringify res))"

text \<open>The \<^verbatim>\<open>switch (name)\<close> of the Key Protect section; \<open>None\<close> when no case matches.\<close>

definition key_protect_switch ::
  "config \<Rightarrow> platform \<Rightarrow> kp_client \<Rightarrow> string \<Rightarrow> jsval \<Rightarrow> rendered traced option" where
  "key_protect_switch cfg pf c name args =
     (if name = ''key_protect_list_keys'' then Some (key_protect_list_keys cfg pf c args)
      else if name = ''key_protect_create_key'' then Some (key_protect_create_key cfg pf c args)
      else if name = ''key_protect_get_key'' then Some (key_protect_get_key cfg pf c args)
      else if name = ''key_protect_wrap_key'' then Some (key_protect_wrap_key cfg pf c args)
      else if name = ''key_protect_unwrap_key'' then Some (key_protect_unwrap_key cfg pf c args)
      else if name = ''key_protect_rotate_key'' then Some (key_protect_rotate_key cfg pf c args)
      else if name = ''key_protect_delete_key'' then Some (key_protect_delete_key cfg pf c args)
      else if name = ''key_protect_get_key_policies''
        then Some (key_protect_get_key_policies cfg pf c args)
      else None)"

definition kp_not_configured :: string where
  "kp_not_configured = ''Error: Key Protect not configured. Set IBM_CLOUD_API_KEY and KEY_PROTECT_INSTANCE_ID environment variables.''"

definition key_protect_section ::
  "config \<Rightarrow> platform \<Rightarrow> kp_client option \<Rightarrow> string \<Rightarrow> jsval
     \<Rightarrow> content_item list traced option \<times> kp_client option" where
  "key_protect_section cfg pf keyProtectClient name args =
     (case getKeyProtectClient cfg pf keyProtectClient of
        (Inl e, st) \<Rightarrow> (Some (Inl e, []), st)
      | (Inr None, st) \<Rightarrow> (Some (Inr (text_content (Plain kp_not_configured)), []), st)
      | (Inr (Some kpClient), st) \<Rightarrow>
          (map_option returned (key_protect_switch cfg pf kpClient name args), st))"


section \<open>z/OS Connect\<close>

text \<open>
  \<^verbatim>\<open>callZosConnect(endpoint, method = "GET", body = null)\<close>. A caller that leaves \<open>method\<close>
  or \<open>body\<close> out (or passes \<^verbatim>\<open>undefined\<close>) gets the default, which the callers below
  write out.
\<close>

definition zos_headers :: "config \<Rightarrow> platform \<Rightarrow> (string \<times> string) list" where
  "zos_headers cfg pf =
     [(''Content-Type'', ''application/json''), (''Accept'', ''application/json'')]
     @ (if env_truthy (ZOS_CONNECT_USERNAME cfg) \<and> env_truthy (ZOS_CONNECT_PASSWORD cfg)
        then [(''Authorization'',
               ''Basic '' @ base64 pf (env_str (ZOS_CONNECT_USERNAME cfg) @ '':''
                                       @ env_str (ZOS_CONNECT_PASSWORD cfg)))]
        else [])"

definition zos_request :: "config \<Rightarrow> platform \<Rightarrow> string \<Rightarrow> jsval \<Rightarrow> jsval \<Rightarrow> http_request" where
  "zos_request cfg pf endpoint meth body =
     \<lparr>req_url = env_str (ZOS_CONNECT_URL cfg) @ endpoint,
      req_method = meth,
      req_headers = zos_headers cfg pf,
      req_body = (if truthy body
                     \<and> (meth = JStr ''POST'' \<or> meth = JStr ''PUT'' \<or> meth = JStr ''PATCH'')
                  then Some (Stringified body) else None)\<rparr>"

definition zos_response :: "http_response \<Rightarrow> exn + jsval" where
  "zos_response response =
     (if \<not> resp_ok response
      then ebind (resp_text response) (\<lambda>errorText.
             Inl (Error (''z/OS Connect error '' @ show_nat (resp_status response)
                         @ '': '' @ errorText)))
      else (case resp_content_type response of
              None \<Rightarrow> ebind (resp_text response) (\<lambda>t. Inr (JStr t))
            | Some contentType \<Rightarrow>
                if contentType \<noteq> [] \<and> includes_str contentType ''application/json''
                then resp_json response
                else ebind (resp_text response) (\<lambda>t. Inr (JStr t))))"

definition callZosConnect ::
  "config \<Rightarrow> platform \<Rightarrow> string \<Rightarrow> jsval \<Rightarrow> jsval \<Rightarrow> jsval traced" where
  "callZosConnect cfg pf endpoint meth body =
     (if \<not> env_truthy (ZOS_CONNECT_URL cfg)
      then (Inl (Error ''z/OS Connect not configured. Set ZOS_CONNECT_URL environment variable.''), [])
      else (let request = zos_request cfg pf endpoint meth body in
            case fetch pf request of
              Inl e \<Rightarrow> (Inl e, [Fetch request])
            | Inr response \<Rightarrow> (zos_response response, [Fetch request])))"

text \<open>The three parameterless tools: a GET, and the answer serialized.\<close>

definition zos_get :: "config \<Rightarrow> platform \<Rightarrow> string \<Rightarrow> rendered traced" where
  "zos_get cfg pf endpoint =
     (case callZosConnect cfg pf endpoint (JStr ''GET'') JNull of
        (Inl e, cs) \<Rightarrow> (Inl e, cs)
      | (Inr answer, cs) \<Rightarrow> (Inr (stringify answer), cs))"

definition zos_connect_get_service :: "config \<Rightarrow> platform \<Rightarrow> jsval \<Rightarrow> rendered traced" where
  "zos_connect_get_service cfg pf args =
     (case read_prop args ''service_name'' of
        Inl e \<Rightarrow> (Inl e, [])
      | Inr service_name \<Rightarrow>
          (case to_string (number_to_string pf) service_name of
             Inl e \<Rightarrow> (Inl e, [])
           | Inr sn \<Rightarrow> zos_get cfg pf (''/zosConnect/services/'' @ sn)))"

text \<open>
  The substitution loop of \<^verbatim>\<open>zos_connect_call_service\<close>:
  \<^verbatim>\<open>endpoint = endpoint.replace(`{${key}}`, encodeURIComponent(String(value)))\<close>
  for each entry of \<^verbatim>\<open>path_params\<close> in turn. The conversion of the value and its encoding
  can throw, and the loop ends there.
\<close>

definition substitute_one :: "(rat \<Rightarrow> string) \<Rightarrow> string \<Rightarrow> string \<times> jsval \<Rightarrow> exn + string" where
  "substitute_one shown endpoint kv =
     ebind (to_string shown (snd kv)) (\<lambda>s.
     ebind (encodeURIComponent s) (\<lambda>encoded.
       Inr (js_replace endpoint (''{'' @ fst kv @ ''}'') encoded)))"

fun substitute_entries ::
  "(rat \<Rightarrow> string) \<Rightarrow> string \<Rightarrow> (string \<times> jsval) list \<Rightarrow> exn + string" where
  "substitute_entries shown endpoint [] = Inr endpoint"
| "substitute_entries shown endpoint (kv # kvs) =
     ebind (substitute_one shown endpoint kv) (\<lambda>replaced.
       substitute_entries shown replaced kvs)"

definition substitute_path_params :: "(rat \<Rightarrow> string) \<Rightarrow> string \<Rightarrow> jsval \<Rightarrow> exn + string" where
  "substitute_path_params shown endpoint path_params =
     (if truthy path_params
      then substitute_entries shown endpoint (object_entries path_params)
      else Inr endpoint)"

text \<open>
  The endpoint of \<^verbatim>\<open>zos_connect_call_service\<close>: the template literal (which converts the
  service name, then the operation), the substitution loop, the query string.
\<close>

definition call_service_endpoint :: "platform \<Rightarrow> jsval \<Rightarrow> jsval \<Rightarrow> exn + string" where
  "call_service_endpoint pf service_name args =
     ebind (to_string (number_to_string pf) service_name) (\<lambda>sn.
     ebind (to_string (number_to_string pf)
              (js_or (lookup_prop args ''operation'') (JStr ''/''))) (\<lambda>operation.
     ebind (substitute_path_params (number_to_string pf)
              (canonical (''/zosConnect/services/'' @ sn @ operation))
              (lookup_prop args ''path_params'')) (\<lambda>endpoint.
       if truthy (lookup_prop args ''query_params'')
       then ebind (url_search_params pf (lookup_prop args ''query_params'')) (\<lambda>queryString.
              Inr (endpoint @ ''?'' @ queryString))
       else Inr endpoint)))"

definition zos_connect_call_service :: "config \<Rightarrow> platform \<Rightarrow> jsval \<Rightarrow> rendered traced" where
  "zos_connect_call_service cfg pf args =
     (case read_prop args ''service_name'' of
        Inl e \<Rightarrow> (Inl e, [])
      | Inr service_name \<Rightarrow>
          (case call_service_endpoint pf service_name args of
             Inl e \<Rightarrow> (Inl e, [])
           | Inr endpoint \<Rightarrow>
               (case callZosConnect cfg pf endpoint
                       (js_or (lookup_prop args ''method'') (JStr ''POST''))
                       (if lookup_prop args ''payload'' = JUndefined then JNull
                        else lookup_prop args ''payload'') of
                  (Inl e, cs) \<Rightarrow> (Inl e, cs)
                | (Inr answer, cs) \<Rightarrow>
                    (Inr (Stringified (JObj
                       [(''service'', service_name),
                        (''operation'', js_or (lookup_prop args ''operation'') (JStr ''/'')),
                        (''method'', js_or (lookup_prop args ''method'') (JStr ''POST'')),
                        (''response'', answer)])), cs))))"

definition zos_connect_switch ::
  "config \<Rightarrow> platform \<Rightarrow> string \<Rightarrow> jsval \<Rightarrow> rendered traced option" where
  "zos_connect_switch cfg pf name args =
     (if name = ''zos_connect_list_services'' then Some (zos_get cfg pf ''/zosConnect/services'')
      else if name = ''zos_connect_get_service'' then Some (zos_connect_get_service cfg pf args)
      else if name = ''zos_connect_call_service'' then Some (zos_connect_call_service cfg pf args)
      else if name = ''zos_connect_list_apis'' then Some (zos_get cfg pf ''/zosConnect/apis'')
      else if name = ''zos_connect_health'' then Some (zos_get cfg pf ''/zosConnect/health'')
      else None)"

definition zos_not_configured :: string where
  "zos_not_configured = ''Error: z/OS Connect not configured. Set ZOS_CONNECT_URL environment variable. This requires access to an IBM mainframe with z/OS Connect EE installed.''"

definition zos_connect_section ::
  "config \<Rightarrow> platform \<Rightarrow> string \<Rightarrow> jsval \<Rightarrow> content_item list traced option" where
  "zos_connect_section cfg pf name args =
     (if \<not> env_truthy (ZOS_CONNECT_URL cfg)
      then Some (Inr (text_content (Plain zos_not_configured)), [])
      else map_option returned (zos_connect_switch cfg pf name args))"

section \<open>The tool-call handler\<close>

text \<open>
  The body of the \<^verbatim>\<open>try\<close> block: the Key Protect section for a name with that prefix, then
  the z/OS Connect section, then the fall-through for a name no section returned on.
\<close>

definition unknown_tool :: "string \<Rightarrow> content_item list" where
  "unknown_tool name = text_content (Plain (''Unknown tool: '' @ name))"

definition try_block ::
  "config \<Rightarrow> platform \<Rightarrow> kp_client option \<Rightarrow> string \<Rightarrow> jsval
     \<Rightarrow> content_item list traced \<times> kp_client option" where
  "try_block cfg pf keyProtectClient name args =
     (case (if prefix ''key_protect_'' name
            then key_protect_section cfg pf keyProtectClient name args
            else (None, keyProtectClient)) of
        (Some out, st) \<Rightarrow> (out, st)
      | (None, st) \<Rightarrow>
          (case (if prefix ''zos_connect_'' name then zos_connect_section cfg pf name args
                 else None) of
             Some out \<Rightarrow> (out, st)
           | None \<Rightarrow> ((Inr (unknown_tool name), []), st)))"

text \<open>
  What a call comes to: how the handler's promise settles (\<open>Inl\<close> would be a rejection, a
  fault handed to the caller), the requests issued, and the client handle left behind.
\<close>

record call_result =
  settled :: "exn + content_item list"
  calls :: "call list"
  client :: "kp_client option"

definition error_content :: "exn \<Rightarrow> content_item list" where
  "error_content e = text_content (Plain (''Error: '' @ message e))"

definition call_tool ::
  "config \<Rightarrow> platform \<Rightarrow> kp_client option \<Rightarrow> string \<Rightarrow> jsval \<Rightarrow> call_result" where
  "call_tool cfg pf keyProtectClient name args =
     (case try_block cfg pf keyProtectClient name args of
        ((Inl e, cs), st) \<Rightarrow> \<lparr>settled = Inr (error_content e), calls = cs, client = st\<rparr>
      | ((Inr content, cs), st) \<Rightarrow> \<lparr>settled = Inr content, calls = cs, client = st\<rparr>)"

section \<open>The tool catalog\<close>

text \<open>
  The tools the \<^verbatim>\<open>ListTools\<close> handler declares: name, the declared type of each property,
  the declared enumerations and the required properties (descriptions and defaults are
  documentation only).
\<close>

datatype jstype = TNumber | TString | TBoolean | TObject | TArray jstype

record tool =
  tool_name :: string
  properties :: "(string \<times> jstype) list"
  enums :: "(string \<times> string list) list"
  required :: "string list"

definition tools :: "tool list" where
  "tools =
    [\<lparr>tool_name = ''key_protect_list_keys'',
      properties = [(''limit'', TNumber), (''offset'', TNumber), (''state'', TArray TNumber)],
      enums = [], required = []\<rparr>,
     \<lparr>tool_name = ''key_protect_create_key'',
      properties = [(''name'', TString), (''description'', TString), (''type'', TString),
                    (''extractable'', TBoolean), (''payload'', TString)],
      enums = [(''type'', [''root_key'', ''standard_key''])], required = [''name'']\<rparr>,
     \<lparr>tool_name = ''key_protect_get_key'',
      properties = [(''key_id'', TString)], enums = [], required = [''key_id'']\<rparr>,
     \<lparr>tool_name = ''key_protect_wrap_key'',
      properties = [(''key_id'', TString), (''plaintext'', TString), (''aad'', TArray TString)],
      enums = [], required = [''key_id'', ''plaintext'']\<rparr>,
     \<lparr>tool_name = ''key_protect_unwrap_key'',
      properties = [(''key_id'', TString), (''ciphertext'', TString), (''aad'', TArray TString)],
      enums = [], required = [''key_id'', ''ciphertext'']\<rparr>,
     \<lparr>tool_name = ''key_protect_rotate_key'',
      properties = [(''key_id'', TString), (''payload'', TString)],
      enums = [], required = [''key_id'']\<rparr>,
     \<lparr>tool_name = ''key_protect_delete_key'',
      properties = [(''key_id'', TString), (''force'', TBoolean)],
      enums = [], required = [''key_id'']\<rparr>,
     \<lparr>tool_name = ''key_protect_get_key_policies'',
      properties = [(''key_id'', TString)], enums = [], required = [''key_id'']\<rparr>,
     \<lparr>tool_name = ''zos_connect_list_services'',
      properties = [], enums = [], required = []\<rparr>,
     \<lparr>tool_name = ''zos_connect_get_service'',
      properties = [(''service_name'', TString)], enums = [], required = [''service_name'']\<rparr>,
     \<lparr>tool_name = ''zos_connect_call_service'',
      properties = [(''service_name'', TString), (''operation'', TString), (''method'', TString),
                    (''payload'', TObject), (''path_params'', TObject),
                    (''query_params'', TObject)],
      enums = [(''method'', [''GET'', ''POST'', ''PUT'', ''DELETE'', ''PATCH''])],
      required = [''service_name'']\<rparr>,
     \<lparr>tool_name = ''zos_connect_list_apis'',
      properties = [], enums = [], required = []\<rparr>,
     \<lparr>tool_name = ''zos_connect_health'',
      properties = [], enums = [], required = []\<rparr>]"

definition tool_names :: "string list" where
  "tool_names = map tool_name tools"

text \<open>
  The values the module variable \<^verbatim>\<open>keyProtectClient\<close> can hold: \<^verbatim>\<open>null\<close> when the module is
  loaded, and afterwards whatever a call leaves behind, whatever the backends answer.
\<close>

inductive reachable :: "config \<Rightarrow> kp_client option \<Rightarrow> bool" for cfg where
  initially: "reachable cfg None"
| after_call: "reachable cfg st \<Longrightarrow> reachable cfg (client (call_tool cfg pf st name args))"

section \<open>An example deployment\<close>

text \<open>
  Concrete configurations and a small stand-in for the two backends, on which the theorems
  below are instantiated. The stand-in Key Protect holds a root key \<^verbatim>\<open>root-1\<close> and a
  standard key \<^verbatim>\<open>std-1\<close>; it writes the current key version in front of what it wraps and
  reads it back on unwrap, and it refuses to wrap or unwrap with anything but the root key.
  The stand-in prints a number as the decimal numeral of its integer part, which is what
  JavaScript prints for the integers below \<open>10^21\<close> in magnitude; the examples convert no
  other number.
\<close>

definition show_int :: "int \<Rightarrow> string" where
  "show_int i = (if i < 0 then ''-'' @ show_nat (nat (- i)) else show_nat (nat i))"

fun string_of :: "jsval \<Rightarrow> string" where
  "string_of (JStr s) = s"
| "string_of v = []"

definition configured :: config where
  "configured =
     \<lparr>IBM_CLOUD_API_KEY = Some ''api-key'',
      KEY_PROTECT_INSTANCE_ID = Some ''instance-1'',
      env_KEY_PROTECT_URL = None,
      ZOS_CONNECT_URL = Some ''https://zos.example:9443'',
      ZOS_CONNECT_USERNAME = None,
      ZOS_CONNECT_PASSWORD = None\<rparr>"

definition unconfigured :: config where
  "unconfigured =
     \<lparr>IBM_CLOUD_API_KEY = None,
      KEY_PROTECT_INSTANCE_ID = None,
      env_KEY_PROTECT_URL = None,
      ZOS_CONNECT_URL = None,
      ZOS_CONNECT_USERNAME = None,
      ZOS_CONNECT_PASSWORD = None\<rparr>"

definition example_client :: kp_client where
  "example_client = KpClient ''api-key'' ''https://us-south.kms.cloud.ibm.com''"

definition example_sdk :: "string \<Rightarrow> kp_client \<Rightarrow> kp_method \<Rightarrow> jsval \<Rightarrow> exn + jsval" where
  "example_sdk version c m p =
     (case m of
        WrapKey \<Rightarrow>
          (if lookup_prop p ''id'' = JStr ''root-1''
           then Inr (JObj [(''ciphertext'',
                              JStr (version @ '':''
                                    @ string_of (lookup_prop (lookup_prop p ''keyActionWrapBody'')
                                                   ''plaintext''))),
                           (''keyVersion'', JObj [(''id'', JStr version)])])
           else Inl (Error ''Conflict: the key is not a root key''))
      | UnwrapKey \<Rightarrow>
          (if lookup_prop p ''id'' = JStr ''root-1''
           then (case find_split '':'' (string_of (lookup_prop (lookup_prop p ''keyActionUnwrapBody'')
                                                     ''ciphertext'')) of
                   Some (v, plain) \<Rightarrow>
                     Inr (JObj [(''plaintext'', JStr plain),
                                (''keyVersion'', JObj [(''id'', JStr v)])])
                 | None \<Rightarrow> Inl (Error ''Unprocessable Entity: the ciphertext is not valid''))
           else Inl (Error ''Conflict: the key is not a root key''))
      | GetKey \<Rightarrow>
          (if lookup_prop p ''id'' = JStr ''std-1''
           then Inr (JObj [(''resources'',
                   JArr [JObj [(''id'', JStr ''std-1''), (''name'', JStr ''data-key''),
                               (''extractable'', JBool True)]])])
           else if lookup_prop p ''id'' = JStr ''root-1''
           then Inr (JObj [(''resources'',
                   JArr [JObj [(''id'', JStr ''root-1''), (''name'', JStr ''kek''),
                               (''extractable'', JBool False)]])])
           else Inl (Error ''Not Found''))
      | CreateKey \<Rightarrow>
          Inr (JObj [(''resources'',
                 JArr [JObj [(''id'', JStr ''key-7''),
                             (''name'', opt_prop (opt_first (lookup_prop
                                          (lookup_prop p ''keyCreateBody'') ''resources'')) ''name''),
                             (''type'', JStr kms_key_json),
                             (''extractable'', opt_prop (opt_first (lookup_prop
                                          (lookup_prop p ''keyCreateBody'') ''resources''))
                                          ''extractable''),
                             (''crn'', JStr ''crn:v1:key-7'')]])])
      | GetKeys \<Rightarrow> Inr (JObj [(''resources'', JArr [])])
      | RotateKey \<Rightarrow> Inr JUndefined
      | DeleteKey \<Rightarrow> Inr JUndefined
      | GetKeyMetadata \<Rightarrow> Inr (JObj [(''resources'', JArr [])]))"

definition example_fetch :: "http_request \<Rightarrow> exn + http_response" where
  "example_fetch r =
     Inr \<lparr>resp_ok = True, resp_status = 200, resp_content_type = Some ''application/json'',
          resp_text = Inr ''{}'', resp_json = Inr (JObj [])\<rparr>"

definition example_platform :: "string \<Rightarrow> platform" where
  "example_platform version =
     \<lparr>new_client = (\<lambda>k u. None),
      sdk = example_sdk version,
      fetch = example_fetch,
      base64 = (\<lambda>s. s),
      url_search_params = (\<lambda>v. Inr []),
      number_to_string = (\<lambda>q. show_int \<lfloor>q\<rfloor>)\<rparr>"

text \<open>The same platform with a Key Protect that answers every call with the result \<open>v\<close>.\<close>

definition answering :: "jsval \<Rightarrow> platform" where
  "answering v = (example_platform ''v1'')\<lparr>sdk := (\<lambda>c m p. Inr v)\<rparr>"

section \<open>Auxiliary facts\<close>

subsection \<open>Strings\<close>

lemma find_split_sound:
  "find_split pat s = Some (a, b) \<Longrightarrow> s = a @ pat @ b"
proof (induction s arbitrary: a b)
  case Nil
  then show ?case by (simp split: if_splits)
next
  case (Cons c cs)
  show ?case
  proof (cases "prefix pat (c # cs)")
    case True
    with Cons.prems have "a = []" "b = drop (length pat) (c # cs)" by simp_all
    moreover from True have "c # cs = pat @ drop (length pat) (c # cs)"
      by (auto simp: prefix_def)
    ultimately show ?thesis by simp
  next
    case False
    with Cons.prems obtain a' where "find_split pat cs = Some (a', b)" "a = c # a'"
      by auto
    with Cons.IH show ?thesis by simp
  qed
qed

lemma find_split_first:
  "find_split pat s = Some (a, b) \<Longrightarrow> s = a' @ pat @ b' \<Longrightarrow> length a \<le> length a'"
proof (induction s arbitrary: a a')
  case Nil
  then show ?case by (simp split: if_splits)
next
  case (Cons c cs)
  show ?case
  proof (cases "prefix pat (c # cs)")
    case True
    with Cons.prems(1) show ?thesis by simp
  next
    case False
    with Cons.prems(1) obtain a0 where a0: "find_split pat cs = Some (a0, b)" "a = c # a0"
      by auto
    from False Cons.prems(2) have "a' \<noteq> []"
      by (auto simp: prefix_def)
    with Cons.prems(2) obtain a'' where "a' = c # a''" "cs = a'' @ pat @ b'"
      by (cases a') auto
    with Cons.IH [OF a0(1)] a0(2) show ?thesis
      by simp
  qed
qed

lemma get_substitution_plain:
  "CHR ''$'' \<notin> set r \<Longrightarrow> get_substitution m a b r = r"
  by (induction m a b r rule: get_substitution.induct) auto

lemma hex_char_no_dollar:
  assumes "d < 16"
  shows "hex_char d \<noteq> CHR ''$''"
proof -
  have "hex_char d \<in> set ''0123456789ABCDEF''"
    unfolding hex_char_def using assms by (intro nth_mem) simp
  then show ?thesis
    by auto
qed

lemma percent_byte_no_dollar: "CHR ''$'' \<notin> set (percent_byte c)"
proof -
  have "(of_char c :: nat) div 16 < 16"
    by (rule less_mult_imp_div_less) simp
  moreover have "(of_char c :: nat) mod 16 < 16"
    by simp
  ultimately have "hex_char ((of_char c :: nat) div 16) \<noteq> CHR ''$''"
    "hex_char ((of_char c :: nat) mod 16) \<noteq> CHR ''$''"
    by (simp_all add: hex_char_no_dollar)
  then show ?thesis
    by (auto simp: percent_byte_def)
qed

lemma encodeURIComponent_no_dollar:
  "encodeURIComponent s = Inr t \<Longrightarrow> CHR ''$'' \<notin> set t"
  using percent_byte_no_dollar
  by (auto simp: encodeURIComponent_def uri_unreserved_def quote_def split: if_splits)

lemma canonical_plain:
  "CHR 0xED \<notin> set s \<Longrightarrow> canonical s = s"
  by (induction s rule: canonical.induct) auto

lemma js_replace_absent:
  "\<not> includes_str s pat \<Longrightarrow> js_replace s pat r = s"
  unfolding includes_str_def js_replace_def
  by (auto split: option.splits)

lemma prefix_exclusive:
  "prefix ''key_protect_'' name \<Longrightarrow> \<not> prefix ''zos_connect_'' name"
  by (auto simp: prefix_def)

lemma tool_names_eval:
  "tool_names = [''key_protect_list_keys'', ''key_protect_create_key'', ''key_protect_get_key'',
     ''key_protect_wrap_key'', ''key_protect_unwrap_key'', ''key_protect_rotate_key'',
     ''key_protect_delete_key'', ''key_protect_get_key_policies'', ''zos_connect_list_services'',
     ''zos_connect_get_service'', ''zos_connect_call_service'', ''zos_connect_list_apis'',
     ''zos_connect_health'']"
  by (simp add: tool_names_def tools_def)

lemma switch_outside_catalog:
  assumes "name \<notin> set tool_names"
  shows "key_protect_switch cfg pf c name args = None"
    and "zos_connect_switch cfg pf name args = None"
  using assms
  by (simp_all add: tool_names_eval key_protect_switch_def zos_connect_switch_def)

subsection \<open>Exceptions and property reads\<close>

lemma ebind_Inr [simp]: "ebind (Inr x) f = f x"
  by (simp add: ebind_def)

lemma ebind_Inl [simp]: "ebind (Inl e) f = Inl e"
  by (simp add: ebind_def)

lemma stringify_defined [simp]: "v \<noteq> JUndefined \<Longrightarrow> stringify v = Stringified v"
  by (simp add: stringify_def)

lemma stringify_undefined [simp]: "stringify JUndefined = NoText"
  by (simp add: stringify_def)

lemma read_prop_present: "\<not> nullish v \<Longrightarrow> read_prop v k = Inr (lookup_prop v k)"
  by (simp add: read_prop_def)

lemma lookup_prop_present: "lookup_prop v k = JStr s \<Longrightarrow> \<not> nullish v"
  by (cases v) simp_all

subsection \<open>The substitution loop\<close>

text \<open>
  An entry whose placeholder is not in the endpoint, and whose value
  \<^verbatim>\<open>encodeURIComponent(String(value))\<close> accepts, leaves the endpoint as it is.
\<close>

lemma substitute_one_absent:
  assumes "\<not> includes_str endpoint (''{'' @ fst kv @ ''}'')"
    and "to_string shown (snd kv) = Inr s"
    and "\<not> has_lone_surrogate s"
  shows "substitute_one shown endpoint kv = Inr endpoint"
  using assms
  by (simp add: substitute_one_def encodeURIComponent_def js_replace_absent)

lemma substitute_entries_absent:
  "\<forall>kv\<in>set kvs. \<not> includes_str endpoint (''{'' @ fst kv @ ''}'')
        \<and> (\<exists>s. to_string shown (snd kv) = Inr s \<and> \<not> has_lone_surrogate s)
     \<Longrightarrow> substitute_entries shown endpoint kvs = Inr endpoint"
proof (induction kvs)
  case Nil
  show ?case by simp
next
  case (Cons kv kvs)
  from Cons.prems obtain s where "\<not> includes_str endpoint (''{'' @ fst kv @ ''}'')"
    and "to_string shown (snd kv) = Inr s" and "\<not> has_lone_surrogate s"
    by auto
  then have "substitute_one shown endpoint kv = Inr endpoint"
    by (rule substitute_one_absent)
  with Cons show ?case
    by simp
qed

lemma substitute_path_params_absent:
  "\<forall>kv\<in>set (object_entries path_params). \<not> includes_str endpoint (''{'' @ fst kv @ ''}'')
        \<and> (\<exists>s. to_string shown (snd kv) = Inr s \<and> \<not> has_lone_surrogate s)
     \<Longrightarrow> substitute_path_params shown endpoint path_params = Inr endpoint"
  by (simp add: substitute_path_params_def substitute_entries_absent)

subsection \<open>The handle and the two sections\<close>

lemma client_call_tool:
  "client (call_tool cfg pf st name args) =
     (if prefix ''key_protect_'' name then snd (getKeyProtectClient cfg pf st) else st)"
  by (auto simp: call_tool_def try_block_def key_protect_section_def
           split: prod.splits sum.splits option.splits)

lemma no_handle_without_configuration:
  assumes "reachable cfg st"
    and "\<not> (env_truthy (IBM_CLOUD_API_KEY cfg) \<and> env_truthy (KEY_PROTECT_INSTANCE_ID cfg))"
  shows "st = None"
  using assms
  by (induction rule: reachable.induct)
     (auto simp: client_call_tool getKeyProtectClient_def)

lemma unconfigured_key_protect:
  assumes "prefix ''key_protect_'' name"
    and "\<not> (env_truthy (IBM_CLOUD_API_KEY cfg) \<and> env_truthy (KEY_PROTECT_INSTANCE_ID cfg))"
  shows "call_tool cfg pf None name args =
           \<lparr>settled = Inr (text_content (Plain kp_not_configured)), calls = [], client = None\<rparr>"
  using assms
  by (auto simp: call_tool_def try_block_def key_protect_section_def getKeyProtectClient_def)

lemma unconfigured_zos_connect:
  assumes "prefix ''zos_connect_'' name"
    and "\<not> env_truthy (ZOS_CONNECT_URL cfg)"
  shows "settled (call_tool cfg pf st name args) = Inr (text_content (Plain zos_not_configured))"
    and "calls (call_tool cfg pf st name args) = []"
proof -
  from assms(1) have "\<not> prefix ''key_protect_'' name"
    using prefix_exclusive by blast
  with assms show
    "settled (call_tool cfg pf st name args) = Inr (text_content (Plain zos_not_configured))"
    and "calls (call_tool cfg pf st name args) = []"
    by (simp_all add: call_tool_def try_block_def zos_connect_section_def)
qed

lemma not_unknown:
  "text_content (Plain kp_not_configured) \<noteq> unknown_tool name"
  "text_content (Plain zos_not_configured) \<noteq> unknown_tool name"
  by (simp_all add: text_content_def unknown_tool_def kp_not_configured_def
        zos_not_configured_def)

lemma call_tool_key_protect:
  assumes "fst (getKeyProtectClient cfg pf st) = Inr (Some c)"
    and "prefix ''key_protect_'' name"
    and "key_protect_switch cfg pf c name args = Some r"
  shows "settled (call_tool cfg pf st name args)
           = Inr (case fst r of Inl e \<Rightarrow> error_content e | Inr t \<Rightarrow> text_content t)"
    and "calls (call_tool cfg pf st name args) = snd r"
proof -
  obtain st' where "getKeyProtectClient cfg pf st = (Inr (Some c), st')"
    using assms(1) by (cases "getKeyProtectClient cfg pf st") simp
  with assms(2,3) show
    "settled (call_tool cfg pf st name args)
           = Inr (case fst r of Inl e \<Rightarrow> error_content e | Inr t \<Rightarrow> text_content t)"
    and "calls (call_tool cfg pf st name args) = snd r"
    by (auto simp: call_tool_def try_block_def key_protect_section_def returned_def
             split: sum.splits prod.splits)
qed

lemma call_tool_key_protect_eq:
  assumes "getKeyProtectClient cfg pf st = (Inr (Some c), st')"
    and "prefix ''key_protect_'' name"
    and "key_protect_switch cfg pf c name args = Some r"
  shows "call_tool cfg pf st name args =
           \<lparr>settled = Inr (case fst r of Inl e \<Rightarrow> error_content e | Inr t \<Rightarrow> text_content t),
            calls = snd r, client = st'\<rparr>"
  using assms
  by (auto simp: call_tool_def try_block_def key_protect_section_def returned_def
           split: sum.splits prod.splits)

lemma call_tool_zos_connect:
  assumes "env_truthy (ZOS_CONNECT_URL cfg)"
    and "prefix ''zos_connect_'' name"
    and "zos_connect_switch cfg pf name args = Some r"
  shows "settled (call_tool cfg pf st name args)
           = Inr (case fst r of Inl e \<Rightarrow> error_content e | Inr t \<Rightarrow> text_content t)"
    and "calls (call_tool cfg pf st name args) = snd r"
proof -
  from assms(2) have "\<not> prefix ''key_protect_'' name"
    using prefix_exclusive by blast
  with assms show
    "settled (call_tool cfg pf st name args)
           = Inr (case fst r of Inl e \<Rightarrow> error_content e | Inr t \<Rightarrow> text_content t)"
    and "calls (call_tool cfg pf st name args) = snd r"
    by (auto simp: call_tool_def try_block_def zos_connect_section_def returned_def
             split: sum.splits prod.splits)
qed

lemma returned_Inr:
  "fst (returned r) = Inr content \<Longrightarrow> \<exists>t. fst r = Inr t \<and> content = text_content t"
  by (auto simp: returned_def split: sum.splits)

subsection \<open>The Key Protect handlers\<close>

lemma kp_invoke_Inr:
  "kp_invoke pf c m (Inr p) cont =
     ((case sdk pf c m p of Inl e \<Rightarrow> Inl e | Inr res \<Rightarrow> cont res), [KpCall m p])"
  by (simp add: kp_invoke_def split: sum.splits)

lemma key_protect_switch_eval:
  "key_protect_switch cfg pf c ''key_protect_list_keys'' args
     = Some (key_protect_list_keys cfg pf c args)"
  "key_protect_switch cfg pf c ''key_protect_create_key'' args
     = Some (key_protect_create_key cfg pf c args)"
  "key_protect_switch cfg pf c ''key_protect_get_key'' args
     = Some (key_protect_get_key cfg pf c args)"
  "key_protect_switch cfg pf c ''key_protect_wrap_key'' args
     = Some (key_protect_wrap_key cfg pf c args)"
  "key_protect_switch cfg pf c ''key_protect_unwrap_key'' args
     = Some (key_protect_unwrap_key cfg pf c args)"
  "key_protect_switch cfg pf c ''key_protect_rotate_key'' args
     = Some (key_protect_rotate_key cfg pf c args)"
  "key_protect_switch cfg pf c ''key_protect_delete_key'' args
     = Some (key_protect_delete_key cfg pf c args)"
  "key_protect_switch cfg pf c ''key_protect_get_key_policies'' args
     = Some (key_protect_get_key_policies cfg pf c args)"
  by (simp_all add: key_protect_switch_def)

lemma get_key_run:
  assumes "\<not> nullish args"
  shows "key_protect_get_key cfg pf c args =
    ((case sdk pf c GetKey (JObj
              [(''bluemixInstance'', env_js (KEY_PROTECT_INSTANCE_ID cfg)),
               (''id'', lookup_prop args ''key_id'')]) of
        Inl e \<Rightarrow> Inl e
      | Inr res \<Rightarrow>
          ebind (read_prop res ''resources'') (\<lambda>rs. Inr (stringify (opt_first rs)))),
     [KpCall GetKey (JObj
              [(''bluemixInstance'', env_js (KEY_PROTECT_INSTANCE_ID cfg)),
               (''id'', lookup_prop args ''key_id'')])])"
  using assms
  by (simp add: key_protect_get_key_def read_prop_present kp_invoke_Inr)

lemma wrap_key_run:
  assumes "\<not> nullish args"
  shows "key_protect_wrap_key cfg pf c args =
    ((case sdk pf c WrapKey (JObj
              [(''id'', lookup_prop args ''key_id''),
               (''bluemixInstance'', env_js (KEY_PROTECT_INSTANCE_ID cfg)),
               (''keyActionWrapBody'', JObj
                  ([(''plaintext'', lookup_prop args ''plaintext'')]
                   @ (if truthy (lookup_prop args ''aad'')
                      then [(''aad'', lookup_prop args ''aad'')] else [])))]) of
        Inl e \<Rightarrow> Inl e
      | Inr res \<Rightarrow>
          ebind (read_prop res ''ciphertext'') (\<lambda>ciphertext.
            Inr (Stringified (JObj [(''message'', JStr ''Key wrapped successfully''),
                                    (''ciphertext'', ciphertext),
                                    (''keyVersion'', lookup_prop res ''keyVersion'')])))),
     [KpCall WrapKey (JObj
              [(''id'', lookup_prop args ''key_id''),
               (''bluemixInstance'', env_js (KEY_PROTECT_INSTANCE_ID cfg)),
               (''keyActionWrapBody'', JObj
                  ([(''plaintext'', lookup_prop args ''plaintext'')]
                   @ (if truthy (lookup_prop args ''aad'')
                      then [(''aad'', lookup_prop args ''aad'')] else [])))])])"
  using assms
  by (simp add: key_protect_wrap_key_def read_prop_present kp_invoke_Inr Let_def
        cong: sum.case_cong)

lemma unwrap_key_run:
  assumes "\<not> nullish args"
  shows "key_protect_unwrap_key cfg pf c args =
    ((case sdk pf c UnwrapKey (JObj
              [(''id'', lookup_prop args ''key_id''),
               (''bluemixInstance'', env_js (KEY_PROTECT_INSTANCE_ID cfg)),
               (''keyActionUnwrapBody'', JObj
                  ([(''ciphertext'', lookup_prop args ''ciphertext'')]
                   @ (if truthy (lookup_prop args ''aad'')
                      then [(''aad'', lookup_prop args ''aad'')] else [])))]) of
        Inl e \<Rightarrow> Inl e
      | Inr res \<Rightarrow>
          ebind (read_prop res ''plaintext'') (\<lambda>plaintext.
            Inr (Stringified (JObj [(''message'', JStr ''Key unwrapped successfully''),
                                    (''plaintext'', plaintext),
                                    (''keyVersion'', lookup_prop res ''keyVersion'')])))),
     [KpCall UnwrapKey (JObj
              [(''id'', lookup_prop args ''key_id''),
               (''bluemixInstance'', env_js (KEY_PROTECT_INSTANCE_ID cfg)),
               (''keyActionUnwrapBody'', JObj
                  ([(''ciphertext'', lookup_prop args ''ciphertext'')]
                   @ (if truthy (lookup_prop args ''aad'')
                      then [(''aad'', lookup_prop args ''aad'')] else [])))])])"
  using assms
  by (simp add: key_protect_unwrap_key_def read_prop_present kp_invoke_Inr Let_def
        cong: sum.case_cong)

lemma rotate_key_run:
  assumes "\<not> nullish args"
  shows "key_protect_rotate_key cfg pf c args =
    ((case sdk pf c RotateKey (JObj
              ([(''id'', lookup_prop args ''key_id''),
                (''bluemixInstance'', env_js (KEY_PROTECT_INSTANCE_ID cfg))]
               @ (if truthy (lookup_prop args ''payload'')
                  then [(''keyActionRotateBody'',
                           JObj [(''payload'', lookup_prop args ''payload'')])]
                  else []))) of
        Inl e \<Rightarrow> Inl e
      | Inr res \<Rightarrow>
          ebind (to_string (number_to_string pf) (lookup_prop args ''key_id'')) (\<lambda>key_id.
            Inr (Stringified (JObj
              [(''message'', JStr (''Key '' @ key_id @ '' rotated successfully'')),
               (''keyId'', lookup_prop args ''key_id'')])))),
     [KpCall RotateKey (JObj
              ([(''id'', lookup_prop args ''key_id''),
                (''bluemixInstance'', env_js (KEY_PROTECT_INSTANCE_ID cfg))]
               @ (if truthy (lookup_prop args ''payload'')
                  then [(''keyActionRotateBody'',
                           JObj [(''payload'', lookup_prop args ''payload'')])]
                  else [])))])"
  using assms
  by (simp add: key_protect_rotate_key_def read_prop_present kp_invoke_Inr Let_def
        cong: sum.case_cong)

lemma list_keys_run:
  assumes "\<not> nullish args"
  shows "snd (key_protect_list_keys cfg pf c args) =
     [KpCall GetKeys (JObj
        [(''bluemixInstance'', env_js (KEY_PROTECT_INSTANCE_ID cfg)),
         (''limit'', js_or (lookup_prop args ''limit'') (JNum 100)),
         (''offset'', js_or (lookup_prop args ''offset'') (JNum 0)),
         (''state'', lookup_prop args ''state'')])]"
  using assms
  by (simp add: key_protect_list_keys_def read_prop_present kp_invoke_Inr)




subsection \<open>The z/OS Connect handlers\<close>

lemma callZosConnect_one_call:
  assumes "env_truthy (ZOS_CONNECT_URL cfg)"
  shows "snd (callZosConnect cfg pf endpoint meth body)
           = [Fetch (zos_request cfg pf endpoint meth body)]"
  using assms
  by (simp add: callZosConnect_def Let_def split: sum.splits)


lemma call_service_one_call:
  assumes "env_truthy (ZOS_CONNECT_URL cfg)"
    and "\<not> nullish args"
    and "call_service_endpoint pf (lookup_prop args ''service_name'') args = Inr endpoint"
  shows "snd (zos_connect_call_service cfg pf args)
           = [Fetch (zos_request cfg pf endpoint
                (js_or (lookup_prop args ''method'') (JStr ''POST''))
                (if lookup_prop args ''payload'' = JUndefined then JNull
                 else lookup_prop args ''payload''))]"
  using assms(2,3)
    callZosConnect_one_call [OF assms(1), of pf endpoint
      "js_or (lookup_prop args ''method'') (JStr ''POST'')"
      "if lookup_prop args ''payload'' = JUndefined then JNull else lookup_prop args ''payload''"]
  by (cases "callZosConnect cfg pf endpoint
               (js_or (lookup_prop args ''method'') (JStr ''POST''))
               (if lookup_prop args ''payload'' = JUndefined then JNull
                else lookup_prop args ''payload'')")
     (auto simp: zos_connect_call_service_def read_prop_present split: sum.splits)


lemma try_block_content:
  assumes "fst (fst (try_block cfg pf st name args)) = Inr content"
  shows "\<exists>t. content = text_content t"
proof (cases "prefix ''key_protect_'' name")
  case True
  then have nz: "\<not> prefix ''zos_connect_'' name"
    by (rule prefix_exclusive)
  obtain g st' where g: "getKeyProtectClient cfg pf st = (g, st')"
    by (cases "getKeyProtectClient cfg pf st")
  show ?thesis
  proof (cases g)
    case (Inl e)
    with assms True g show ?thesis
      by (simp add: try_block_def key_protect_section_def)
  next
    case (Inr h)
    show ?thesis
    proof (cases h)
      case None
      with assms True g Inr show ?thesis
        by (auto simp: try_block_def key_protect_section_def)
    next
      case (Some c)
      show ?thesis
      proof (cases "key_protect_switch cfg pf c name args")
        case None
        with assms True nz g Inr Some show ?thesis
          by (auto simp: try_block_def key_protect_section_def unknown_tool_def)
      next
        case (Some r)
        with assms True g Inr \<open>h = Some c\<close> have "fst (returned r) = Inr content"
          by (simp add: try_block_def key_protect_section_def)
        then show ?thesis
          using returned_Inr by blast
      qed
    qed
  qed
next
  case False
  show ?thesis
  proof (cases "prefix ''zos_connect_'' name")
    case nz: False
    with assms False show ?thesis
      by (auto simp: try_block_def unknown_tool_def)
  next
    case True
    show ?thesis
    proof (cases "env_truthy (ZOS_CONNECT_URL cfg)")
      case no_url: False
      with assms \<open>\<not> prefix ''key_protect_'' name\<close> True show ?thesis
        by (auto simp: try_block_def zos_connect_section_def)
    next
      case url: True
      show ?thesis
      proof (cases "zos_connect_switch cfg pf name args")
        case None
        with assms False True url show ?thesis
          by (auto simp: try_block_def zos_connect_section_def unknown_tool_def)
      next
        case (Some r)
        with assms False True url have "fst (returned r) = Inr content"
          by (simp add: try_block_def zos_connect_section_def)
        then show ?thesis
          using returned_Inr by blast
      qed
    qed
  qed
qed

subsection \<open>The example deployment\<close>

lemma example_platform_simps:
  "new_client (example_platform v) = (\<lambda>k u. None)"
  "sdk (example_platform v) = example_sdk v"
  "fetch (example_platform v) = example_fetch"
  "base64 (example_platform v) = (\<lambda>s. s)"
  "url_search_params (example_platform v) = (\<lambda>q. Inr [])"
  "number_to_string (example_platform v) = (\<lambda>q. show_int \<lfloor>q\<rfloor>)"
  by (simp_all add: example_platform_def)

lemma example_client_available:
  "getKeyProtectClient configured (example_platform v) None
     = (Inr (Some example_client), Some example_client)"
  by (simp add: getKeyProtectClient_def configured_def example_platform_def
        KEY_PROTECT_URL_def example_client_def Let_def)

lemma create_root_key_example:
  "call_tool configured (example_platform ''v1'') None ''key_protect_create_key''
       (JObj [(''name'', JStr ''k1''), (''type'', JStr ''root_key''),
              (''extractable'', JBool True)])
   = \<lparr>settled = Inr [\<lparr>item_type = ''text'',
              item_text = Stringified (JObj
                [(''message'', JStr (''Key '' @ dquote @ ''k1'' @ dquote
                                     @ '' created successfully'')),
                 (''key'', JObj [(''id'', JStr ''key-7''),
                                 (''name'', JStr ''k1''),
                                 (''type'', JStr ''application/vnd.ibm.kms.key+json''),
                                 (''crn'', JStr ''crn:v1:key-7'')])])\<rparr>],
       calls = [KpCall CreateKey (JObj
             [(''bluemixInstance'', JStr ''instance-1''),
              (''keyCreateBody'', JObj
                 [(''metadata'', JObj [(''collectionType'', JStr ''application/vnd.ibm.kms.key+json''),
                                       (''collectionTotal'', JNum 1)]),
                  (''resources'', JArr
                     [JObj [(''type'', JStr ''application/vnd.ibm.kms.key+json''),
                            (''name'', JStr ''k1''),
                            (''extractable'', JBool False)]])])])],
       client = Some example_client\<rparr>"
proof -
  have sw: "key_protect_switch configured (example_platform ''v1'') example_client
      ''key_protect_create_key'' (JObj [(''name'', JStr ''k1''), (''type'', JStr ''root_key''),
              (''extractable'', JBool True)])
     = Some (key_protect_create_key configured (example_platform ''v1'') example_client
         (JObj [(''name'', JStr ''k1''), (''type'', JStr ''root_key''),
              (''extractable'', JBool True)]))"
    by (simp add: key_protect_switch_def)
  have run: "key_protect_create_key configured (example_platform ''v1'') example_client
         (JObj [(''name'', JStr ''k1''), (''type'', JStr ''root_key''),
              (''extractable'', JBool True)])
     = (Inr (Stringified (JObj
                [(''message'', JStr (''Key '' @ dquote @ ''k1'' @ dquote
                                     @ '' created successfully'')),
                 (''key'', JObj [(''id'', JStr ''key-7''),
                                 (''name'', JStr ''k1''),
                                 (''type'', JStr ''application/vnd.ibm.kms.key+json''),
                                 (''crn'', JStr ''crn:v1:key-7'')])])),
        [KpCall CreateKey (JObj
             [(''bluemixInstance'', JStr ''instance-1''),
              (''keyCreateBody'', JObj
                 [(''metadata'', JObj [(''collectionType'', JStr ''application/vnd.ibm.kms.key+json''),
                                       (''collectionTotal'', JNum 1)]),
                  (''resources'', JArr
                     [JObj [(''type'', JStr ''application/vnd.ibm.kms.key+json''),
                            (''name'', JStr ''k1''),
                            (''extractable'', JBool False)]])])])])"
    by (simp add: key_protect_create_key_def kp_invoke_Inr read_prop_present
        keyResource_def example_platform_def example_sdk_def
        opt_prop_def kms_key_json_def configured_def Let_def)
  show ?thesis
    using call_tool_key_protect_eq [OF example_client_available _ sw]
    by (simp add: run text_content_def)
qed

lemma wrap_standard_key_example:
  "call_tool configured (example_platform ''v1'') None ''key_protect_wrap_key''
      (JObj [(''key_id'', JStr ''std-1''), (''plaintext'', JStr ''AAAA'')])
   = \<lparr>settled = Inr [\<lparr>item_type = ''text'',
                      item_text = Plain ''Error: Conflict: the key is not a root key''\<rparr>],
       calls = [KpCall WrapKey (JObj
                 [(''id'', JStr ''std-1''),
                  (''bluemixInstance'', JStr ''instance-1''),
                  (''keyActionWrapBody'', JObj [(''plaintext'', JStr ''AAAA'')])])],
       client = Some example_client\<rparr>"
proof -
  have run: "key_protect_wrap_key configured (example_platform ''v1'') example_client
      (JObj [(''key_id'', JStr ''std-1''), (''plaintext'', JStr ''AAAA'')])
     = (Inl (Error ''Conflict: the key is not a root key''),
        [KpCall WrapKey (JObj
                 [(''id'', JStr ''std-1''),
                  (''bluemixInstance'', JStr ''instance-1''),
                  (''keyActionWrapBody'', JObj [(''plaintext'', JStr ''AAAA'')])])])"
    by (simp add: wrap_key_run example_platform_simps example_sdk_def configured_def)
  show ?thesis
    using call_tool_key_protect_eq [OF example_client_available _ key_protect_switch_eval(4)]
    by (simp add: run text_content_def error_content_def)
qed

lemma unwrap_with_key_version_example:
  "calls (call_tool configured (example_platform ''v2'') None ''key_protect_unwrap_key''
         (JObj [(''key_id'', JStr ''root-1''), (''ciphertext'', JStr ''v1:AAAA''),
                (''keyVersion'', kv)]))
   = [KpCall UnwrapKey (JObj
           [(''id'', JStr ''root-1''),
            (''bluemixInstance'', JStr ''instance-1''),
            (''keyActionUnwrapBody'', JObj [(''ciphertext'', JStr ''v1:AAAA'')])])]"
proof -
  have run: "snd (key_protect_unwrap_key configured (example_platform ''v2'') example_client
      (JObj [(''key_id'', JStr ''root-1''), (''ciphertext'', JStr ''v1:AAAA''),
                (''keyVersion'', kv)]))
     = [KpCall UnwrapKey (JObj
           [(''id'', JStr ''root-1''),
            (''bluemixInstance'', JStr ''instance-1''),
            (''keyActionUnwrapBody'', JObj [(''ciphertext'', JStr ''v1:AAAA'')])])]"
    by (simp add: unwrap_key_run configured_def)
  show ?thesis
    using call_tool_key_protect_eq [OF example_client_available _ key_protect_switch_eval(5)]
    by (simp add: run)
qed



lemma call_service_unresolved_example:
  "call_tool configured (example_platform ''v1'') None ''zos_connect_call_service''
      (JObj [(''service_name'', JStr ''svc''), (''operation'', JStr ''/customers/{id}'')])
   = \<lparr>settled = Inr [\<lparr>item_type = ''text'',
                      item_text = Stringified (JObj
                        [(''service'', JStr ''svc''),
                         (''operation'', JStr ''/customers/{id}''),
                         (''method'', JStr ''POST''),
                         (''response'', JObj [])])\<rparr>],
      calls = [Fetch \<lparr>req_url = ''https://zos.example:9443/zosConnect/services/svc/customers/{id}'',
                      req_method = JStr ''POST'',
                      req_headers = [(''Content-Type'', ''application/json''),
                                     (''Accept'', ''application/json'')],
                      req_body = None\<rparr>],
      client = None\<rparr>"
  by (simp add: call_tool_def try_block_def zos_connect_section_def zos_connect_switch_def
        zos_connect_call_service_def call_service_endpoint_def substitute_path_params_def
        canonical_plain
        callZosConnect_def zos_request_def zos_headers_def zos_response_def includes_str_def
        read_prop_present js_or_def returned_def text_content_def
        example_platform_simps example_fetch_def configured_def Let_def)

lemma call_service_repeated_example:
  "call_tool configured (example_platform ''v1'') None ''zos_connect_call_service''
      (JObj [(''service_name'', JStr ''svc''), (''operation'', JStr ''/a/{id}/b/{id}''),
             (''path_params'', JObj [(''id'', JStr ''7'')])])
   = \<lparr>settled = Inr [\<lparr>item_type = ''text'',
                      item_text = Stringified (JObj
                        [(''service'', JStr ''svc''),
                         (''operation'', JStr ''/a/{id}/b/{id}''),
                         (''method'', JStr ''POST''),
                         (''response'', JObj [])])\<rparr>],
      calls = [Fetch \<lparr>req_url = ''https://zos.example:9443/zosConnect/services/svc/a/7/b/{id}'',
                      req_method = JStr ''POST'',
                      req_headers = [(''Content-Type'', ''application/json''),
                                     (''Accept'', ''application/json'')],
                      req_body = None\<rparr>],
      client = None\<rparr>"
  by (simp add: call_tool_def try_block_def zos_connect_section_def zos_connect_switch_def
        zos_connect_call_service_def call_service_endpoint_def substitute_path_params_def
        substitute_one_def js_replace_def encodeURIComponent_def uri_unreserved_def quote_def
        canonical_plain
        callZosConnect_def zos_request_def zos_headers_def zos_response_def includes_str_def
        read_prop_present js_or_def returned_def text_content_def
        example_platform_simps example_fetch_def configured_def Let_def)

section \<open>The configuration check comes before the name check\<close>

text \<open>
  Claim C10. A name that starts with \<^verbatim>\<open>key_protect_\<close> is answered with the Key Protect
  configuration diagnostic whenever the API key or the instance id is missing, and a name
  that starts with \<^verbatim>\<open>zos_connect_\<close> with the z/OS Connect diagnostic whenever the URL is
  missing: in both cases whether or not the name is a tool of the catalog, so in particular
  for a name that is not, which does not get the unknown-tool answer. Nothing is sent to a
  backend. The handle state \<open>st\<close> is any state the module can be in.
\<close>

theorem configuration_check_precedes_name_check:
  assumes "reachable cfg st"
  shows "(prefix ''key_protect_'' name
          \<and> \<not> (env_truthy (IBM_CLOUD_API_KEY cfg) \<and> env_truthy (KEY_PROTECT_INSTANCE_ID cfg))
          \<longrightarrow> settled (call_tool cfg pf st name args) = Inr (text_content (Plain kp_not_configured))
              \<and> settled (call_tool cfg pf st name args) \<noteq> Inr (unknown_tool name)
              \<and> calls (call_tool cfg pf st name args) = [])
       \<and> (prefix ''zos_connect_'' name \<and> \<not> env_truthy (ZOS_CONNECT_URL cfg)
          \<longrightarrow> settled (call_tool cfg pf st name args) = Inr (text_content (Plain zos_not_configured))
              \<and> settled (call_tool cfg pf st name args) \<noteq> Inr (unknown_tool name)
              \<and> calls (call_tool cfg pf st name args) = [])"
proof (intro conjI impI)
  assume kp: "prefix ''key_protect_'' name
          \<and> \<not> (env_truthy (IBM_CLOUD_API_KEY cfg) \<and> env_truthy (KEY_PROTECT_INSTANCE_ID cfg))"
  with assms have "st = None"
    using no_handle_without_configuration by blast
  with kp have r: "call_tool cfg pf st name args =
           \<lparr>settled = Inr (text_content (Plain kp_not_configured)), calls = [], client = None\<rparr>"
    using unconfigured_key_protect by blast
  show "settled (call_tool cfg pf st name args) = Inr (text_content (Plain kp_not_configured))"
    by (simp add: r)
  show "settled (call_tool cfg pf st name args) \<noteq> Inr (unknown_tool name)"
    by (simp add: r not_unknown)
  show "calls (call_tool cfg pf st name args) = []"
    by (simp add: r)
next
  assume zos: "prefix ''zos_connect_'' name \<and> \<not> env_truthy (ZOS_CONNECT_URL cfg)"
  then show
    "settled (call_tool cfg pf st name args) = Inr (text_content (Plain zos_not_configured))"
    and "calls (call_tool cfg pf st name args) = []"
    using unconfigured_zos_connect by blast+
  then show "settled (call_tool cfg pf st name args) \<noteq> Inr (unknown_tool name)"
    by (simp add: not_unknown)
qed

theorem configuration_check_precedes_name_check_witness:
  "reachable unconfigured None
   \<and> prefix ''key_protect_'' ''key_protect_export_key''
   \<and> ''key_protect_export_key'' \<notin> set tool_names
   \<and> \<not> (env_truthy (IBM_CLOUD_API_KEY unconfigured)
        \<and> env_truthy (KEY_PROTECT_INSTANCE_ID unconfigured))
   \<and> settled (call_tool unconfigured (example_platform ''v1'') None
         ''key_protect_export_key'' (JObj []))
       = Inr (text_content (Plain kp_not_configured))
   \<and> prefix ''zos_connect_'' ''zos_connect_submit_job''
   \<and> ''zos_connect_submit_job'' \<notin> set tool_names
   \<and> \<not> env_truthy (ZOS_CONNECT_URL unconfigured)
   \<and> settled (call_tool unconfigured (example_platform ''v1'') None
         ''zos_connect_submit_job'' (JObj []))
       = Inr (text_content (Plain zos_not_configured))"
  using configuration_check_precedes_name_check [where cfg = unconfigured and st = None
          and name = "''key_protect_export_key''" and pf = "example_platform ''v1''"
          and args = "JObj []"]
        configuration_check_precedes_name_check [where cfg = unconfigured and st = None
          and name = "''zos_connect_submit_job''" and pf = "example_platform ''v1''"
          and args = "JObj []"]
  by (simp add: unconfigured_def tool_names_eval reachable.initially)

section \<open>Names outside the catalog\<close>

text \<open>
  Claim C6, as amended. A name that is not in the catalog gets the answer
  \<^verbatim>\<open>Unknown tool: <name>\<close>, with the name as it was given and nothing sent to a backend,
  unless it starts with \<^verbatim>\<open>key_protect_\<close> while no Key Protect client handle can be had, or
  starts with \<^verbatim>\<open>zos_connect_\<close> while the z/OS Connect URL is missing (those names get the
  configuration diagnostic, which is C10). For a name with neither prefix the answer does
  not depend on the configuration at all.
\<close>

theorem unknown_tool_unless_configuration_missing:
  assumes "name \<notin> set tool_names"
    and "prefix ''key_protect_'' name
         \<longrightarrow> (\<exists>c. fst (getKeyProtectClient cfg pf st) = Inr (Some c))"
    and "prefix ''zos_connect_'' name \<longrightarrow> env_truthy (ZOS_CONNECT_URL cfg)"
  shows "settled (call_tool cfg pf st name args)
           = Inr [\<lparr>item_type = ''text'', item_text = Plain (''Unknown tool: '' @ name)\<rparr>]
         \<and> calls (call_tool cfg pf st name args) = []"
proof (cases "prefix ''key_protect_'' name")
  case True
  with assms(2) obtain c where c: "fst (getKeyProtectClient cfg pf st) = Inr (Some c)"
    by blast
  from True have nz: "\<not> prefix ''zos_connect_'' name"
    by (rule prefix_exclusive)
  obtain st' where "getKeyProtectClient cfg pf st = (Inr (Some c), st')"
    using c by (cases "getKeyProtectClient cfg pf st") simp
  with True nz show ?thesis
    by (simp add: call_tool_def try_block_def key_protect_section_def
          switch_outside_catalog [OF assms(1)] unknown_tool_def text_content_def)
next
  case False
  with assms(3) show ?thesis
    by (simp add: call_tool_def try_block_def zos_connect_section_def
          switch_outside_catalog [OF assms(1)] unknown_tool_def text_content_def)
qed

theorem unknown_tool_unless_configuration_missing_witness:
  "''totally_unknown_tool'' \<notin> set tool_names
   \<and> \<not> prefix ''key_protect_'' ''totally_unknown_tool''
   \<and> \<not> prefix ''zos_connect_'' ''totally_unknown_tool''
   \<and> settled (call_tool unconfigured (example_platform ''v1'') None
         ''totally_unknown_tool'' (JObj []))
       = Inr [\<lparr>item_type = ''text'', item_text = Plain ''Unknown tool: totally_unknown_tool''\<rparr>]
   \<and> ''key_protect_export_key'' \<notin> set tool_names
   \<and> fst (getKeyProtectClient configured (example_platform ''v1'') None)
       = Inr (Some example_client)
   \<and> settled (call_tool configured (example_platform ''v1'') None
         ''key_protect_export_key'' (JObj []))
       = Inr [\<lparr>item_type = ''text'',
              item_text = Plain ''Unknown tool: key_protect_export_key''\<rparr>]"
  using unknown_tool_unless_configuration_missing [where cfg = unconfigured and st = None
          and name = "''totally_unknown_tool''" and pf = "example_platform ''v1''"
          and args = "JObj []"]
        unknown_tool_unless_configuration_missing [where cfg = configured and st = None
          and name = "''key_protect_export_key''" and pf = "example_platform ''v1''"
          and args = "JObj []"]
  by (simp add: tool_names_eval example_client_available)

text \<open>
  The claim as it was stated fails: without Key Protect credentials, the uncataloged name
  \<^verbatim>\<open>key_protect_export_key\<close> is answered with the configuration diagnostic.
\<close>

theorem unknown_tool_counterexample:
  "''key_protect_export_key'' \<notin> set tool_names
   \<and> settled (call_tool unconfigured (example_platform ''v1'') None
         ''key_protect_export_key'' (JObj []))
       = Inr [\<lparr>item_type = ''text'', item_text = Plain kp_not_configured\<rparr>]
   \<and> settled (call_tool unconfigured (example_platform ''v1'') None
         ''key_protect_export_key'' (JObj []))
       \<noteq> Inr [\<lparr>item_type = ''text'',
               item_text = Plain ''Unknown tool: key_protect_export_key''\<rparr>]"
proof -
  have "call_tool unconfigured (example_platform ''v1'') None ''key_protect_export_key'' (JObj [])
        = \<lparr>settled = Inr (text_content (Plain kp_not_configured)), calls = [], client = None\<rparr>"
    by (rule unconfigured_key_protect) (simp_all add: unconfigured_def)
  then show ?thesis
    by (simp add: tool_names_eval text_content_def kp_not_configured_def)
qed

section \<open>Paging of the key listing\<close>

text \<open>
  Claim C9. The list operation should send the caller's \<open>limit\<close> and \<open>offset\<close> whenever they
  are supplied, 0 included, and the defaults 100 and 0 only when they are left out. The
  handler writes \<^verbatim>\<open>args.limit || 100\<close>, which takes a \<open>limit\<close> of 0 for a missing one. The
  theorem evaluates the handler on three calls: with \<open>limit\<close> 0 and \<open>offset\<close> 0 it asks the
  backend for 100 keys from offset 0, with \<open>limit\<close> 25 for 25 keys, and with neither for 100
  keys from offset 0.
\<close>

theorem list_keys_limit_zero_becomes_100:
  "calls (call_tool configured (example_platform ''v1'') None ''key_protect_list_keys''
        (JObj [(''limit'', JNum 0), (''offset'', JNum 0)])) =
     [KpCall GetKeys (JObj
        [(''bluemixInstance'', JStr ''instance-1''),
         (''limit'', JNum 100),
         (''offset'', JNum 0),
         (''state'', JUndefined)])]
   \<and> calls (call_tool configured (example_platform ''v1'') None ''key_protect_list_keys''
        (JObj [(''limit'', JNum 25), (''offset'', JNum 0)])) =
     [KpCall GetKeys (JObj
        [(''bluemixInstance'', JStr ''instance-1''),
         (''limit'', JNum 25),
         (''offset'', JNum 0),
         (''state'', JUndefined)])]
   \<and> calls (call_tool configured (example_platform ''v1'') None ''key_protect_list_keys''
        (JObj [])) =
     [KpCall GetKeys (JObj
        [(''bluemixInstance'', JStr ''instance-1''),
         (''limit'', JNum 100),
         (''offset'', JNum 0),
         (''state'', JUndefined)])]"
proof -
  have "calls (call_tool configured (example_platform ''v1'') None ''key_protect_list_keys'' args)
          = snd (key_protect_list_keys configured (example_platform ''v1'') example_client args)"
    for args
    by (rule call_tool_key_protect(2) [OF _ _ key_protect_switch_eval(1)])
       (simp_all add: example_client_available)
  then show ?thesis
    by (simp add: list_keys_run js_or_def configured_def)
qed

section \<open>Creating a root key\<close>

text \<open>
  Claim C8, as amended. For every create invocation whose \<open>type\<close> is \<^verbatim>\<open>root_key\<close>, the key
  resource given to \<open>createKey\<close> has \<open>extractable\<close> false whatever the caller supplied (after
  it come only \<open>description\<close> and \<open>payload\<close>, each when truthy). What the operation returns
  when the backend has created the key depends on the \<open>name\<close>, which the handler converts to
  a string only then. When the name converts, the result is a message and a key record of
  exactly four fields taken from the backend's answer, \<open>id\<close>, \<open>name\<close>, \<open>type\<close> and \<open>crn\<close>:
  the record has no \<open>extractable\<close> field, and its \<open>type\<close> is whatever the backend reports.
  When the name does not convert, the result is the diagnostic of that failure, although
  the key has been created.
\<close>

theorem create_root_key_is_not_extractable:
  assumes "fst (getKeyProtectClient cfg pf st) = Inr (Some c)"
    and "lookup_prop args ''type'' = JStr ''root_key''"
  shows "let request = JObj
             [(''bluemixInstance'', env_js (KEY_PROTECT_INSTANCE_ID cfg)),
              (''keyCreateBody'', JObj
                 [(''metadata'', JObj [(''collectionType'', JStr kms_key_json),
                                       (''collectionTotal'', JNum 1)]),
                  (''resources'', JArr
                     [JObj ([(''type'', JStr kms_key_json),
                             (''name'', lookup_prop args ''name''),
                             (''extractable'', JBool False)]
                            @ (if truthy (lookup_prop args ''description'')
                               then [(''description'', lookup_prop args ''description'')]
                               else [])
                            @ (if truthy (lookup_prop args ''payload'')
                               then [(''payload'', lookup_prop args ''payload'')]
                               else []))])])]
         in calls (call_tool cfg pf st ''key_protect_create_key'' args)
              = [KpCall CreateKey request]
          \<and> (\<forall>res name. sdk pf c CreateKey request = Inr res \<and> \<not> nullish res
                 \<and> to_string (number_to_string pf) (lookup_prop args ''name'') = Inr name \<longrightarrow>
               settled (call_tool cfg pf st ''key_protect_create_key'' args)
                 = Inr [\<lparr>item_type = ''text'',
                        item_text = Stringified (JObj
                          [(''message'', JStr (''Key '' @ dquote @ name @ dquote
                               @ '' created successfully'')),
                           (''key'', JObj
                              [(''id'', opt_prop (opt_first (lookup_prop res ''resources'')) ''id''),
                               (''name'', opt_prop (opt_first (lookup_prop res ''resources'')) ''name''),
                               (''type'', opt_prop (opt_first (lookup_prop res ''resources'')) ''type''),
                               (''crn'', opt_prop (opt_first (lookup_prop res ''resources'')) ''crn'')])])\<rparr>])
          \<and> (\<forall>res e. sdk pf c CreateKey request = Inr res
                 \<and> to_string (number_to_string pf) (lookup_prop args ''name'') = Inl e \<longrightarrow>
               settled (call_tool cfg pf st ''key_protect_create_key'' args)
                 = Inr [\<lparr>item_type = ''text'', item_text = Plain (''Error: '' @ message e)\<rparr>])"
proof -
  define request where "request = JObj
             [(''bluemixInstance'', env_js (KEY_PROTECT_INSTANCE_ID cfg)),
              (''keyCreateBody'', JObj
                 [(''metadata'', JObj [(''collectionType'', JStr kms_key_json),
                                       (''collectionTotal'', JNum 1)]),
                  (''resources'', JArr
                     [JObj ([(''type'', JStr kms_key_json),
                             (''name'', lookup_prop args ''name''),
                             (''extractable'', JBool False)]
                            @ (if truthy (lookup_prop args ''description'')
                               then [(''description'', lookup_prop args ''description'')]
                               else [])
                            @ (if truthy (lookup_prop args ''payload'')
                               then [(''payload'', lookup_prop args ''payload'')]
                               else []))])])]"
  have present: "\<not> nullish args"
    using assms(2) by (rule lookup_prop_present)
  have sw: "key_protect_switch cfg pf c ''key_protect_create_key'' args
              = Some (key_protect_create_key cfg pf c args)"
    by (simp add: key_protect_switch_def)
  have run: "key_protect_create_key cfg pf c args =
      ((case sdk pf c CreateKey request of
          Inl e \<Rightarrow> Inl e
        | Inr res \<Rightarrow>
            ebind (to_string (number_to_string pf) (lookup_prop args ''name'')) (\<lambda>name.
            ebind (read_prop res ''resources'') (\<lambda>rs.
              Inr (Stringified (JObj
                 [(''message'', JStr (''Key '' @ dquote @ name @ dquote
                                      @ '' created successfully'')),
                  (''key'', JObj [(''id'', opt_prop (opt_first rs) ''id''),
                                  (''name'', opt_prop (opt_first rs) ''name''),
                                  (''type'', opt_prop (opt_first rs) ''type''),
                                  (''crn'', opt_prop (opt_first rs) ''crn'')])]))))),
       [KpCall CreateKey request])"
    using present assms(2)
    by (simp add: key_protect_create_key_def read_prop_present kp_invoke_Inr keyResource_def
          request_def Let_def cong: sum.case_cong)
  have "calls (call_tool cfg pf st ''key_protect_create_key'' args)
             = [KpCall CreateKey request]"
    using call_tool_key_protect(2) [OF assms(1) _ sw] by (simp add: run)
  moreover have "settled (call_tool cfg pf st ''key_protect_create_key'' args)
                 = Inr [\<lparr>item_type = ''text'',
                        item_text = Stringified (JObj
                          [(''message'', JStr (''Key '' @ dquote @ name @ dquote
                               @ '' created successfully'')),
                           (''key'', JObj
                              [(''id'', opt_prop (opt_first (lookup_prop res ''resources'')) ''id''),
                               (''name'', opt_prop (opt_first (lookup_prop res ''resources'')) ''name''),
                               (''type'', opt_prop (opt_first (lookup_prop res ''resources'')) ''type''),
                               (''crn'', opt_prop (opt_first (lookup_prop res ''resources'')) ''crn'')])])\<rparr>]"
    if "sdk pf c CreateKey request = Inr res \<and> \<not> nullish res
          \<and> to_string (number_to_string pf) (lookup_prop args ''name'') = Inr name" for res name
    using call_tool_key_protect(1) [OF assms(1) _ sw] that
    by (simp add: run read_prop_present text_content_def)
  moreover have "settled (call_tool cfg pf st ''key_protect_create_key'' args)
                 = Inr [\<lparr>item_type = ''text'', item_text = Plain (''Error: '' @ message e)\<rparr>]"
    if "sdk pf c CreateKey request = Inr res
          \<and> to_string (number_to_string pf) (lookup_prop args ''name'') = Inl e" for res e
    using call_tool_key_protect(1) [OF assms(1) _ sw] that
    by (simp add: run error_content_def text_content_def)
  ultimately show ?thesis
    unfolding request_def Let_def by blast
qed

theorem create_root_key_is_not_extractable_witness:
  "fst (getKeyProtectClient configured (example_platform ''v1'') None) = Inr (Some example_client)
   \<and> lookup_prop (JObj [(''name'', JStr ''k1''), (''type'', JStr ''root_key''),
               (''extractable'', JBool True)]) ''type'' = JStr ''root_key''
   \<and> calls (call_tool configured (example_platform ''v1'') None ''key_protect_create_key''
        (JObj [(''name'', JStr ''k1''), (''type'', JStr ''root_key''),
               (''extractable'', JBool True)]))
      = [KpCall CreateKey (JObj
             [(''bluemixInstance'', JStr ''instance-1''),
              (''keyCreateBody'', JObj
                 [(''metadata'', JObj [(''collectionType'', JStr kms_key_json),
                                       (''collectionTotal'', JNum 1)]),
                  (''resources'', JArr
                     [JObj [(''type'', JStr kms_key_json),
                            (''name'', JStr ''k1''),
                            (''extractable'', JBool False)]])])])]
   \<and> settled (call_tool configured (example_platform ''v1'') None ''key_protect_create_key''
        (JObj [(''name'', JStr ''k1''), (''type'', JStr ''root_key''),
               (''extractable'', JBool True)]))
      = Inr [\<lparr>item_type = ''text'',
             item_text = Stringified (JObj
               [(''message'', JStr (''Key '' @ dquote @ ''k1'' @ dquote
                                    @ '' created successfully'')),
                (''key'', JObj [(''id'', JStr ''key-7''),
                                (''name'', JStr ''k1''),
                                (''type'', JStr kms_key_json),
                                (''crn'', JStr ''crn:v1:key-7'')])])\<rparr>]
   \<and> lookup_prop (JObj [(''name'', JObj [(''toString'', JStr ''k1'')]), (''type'', JStr ''root_key'')]) ''type'' = JStr ''root_key''
   \<and> to_string (number_to_string (example_platform ''v1''))
         (lookup_prop (JObj [(''name'', JObj [(''toString'', JStr ''k1'')]), (''type'', JStr ''root_key'')]) ''name'')
       = Inl (TypeError ''Cannot convert object to primitive value'')
   \<and> calls (call_tool configured (example_platform ''v1'') None ''key_protect_create_key''
        (JObj [(''name'', JObj [(''toString'', JStr ''k1'')]), (''type'', JStr ''root_key'')]))
      = [KpCall CreateKey (JObj
             [(''bluemixInstance'', JStr ''instance-1''),
              (''keyCreateBody'', JObj
                 [(''metadata'', JObj [(''collectionType'', JStr kms_key_json),
                                       (''collectionTotal'', JNum 1)]),
                  (''resources'', JArr
                     [JObj [(''type'', JStr kms_key_json),
                            (''name'', JObj [(''toString'', JStr ''k1'')]),
                            (''extractable'', JBool False)]])])])]
   \<and> settled (call_tool configured (example_platform ''v1'') None ''key_protect_create_key''
        (JObj [(''name'', JObj [(''toString'', JStr ''k1'')]), (''type'', JStr ''root_key'')]))
      = Inr [\<lparr>item_type = ''text'',
             item_text = Plain ''Error: Cannot convert object to primitive value''\<rparr>]"
proof -
  have a: "fst (getKeyProtectClient configured (example_platform ''v1'') None)
             = Inr (Some example_client)"
    by (simp add: example_client_available)
  have b: "lookup_prop (JObj [(''name'', JStr ''k1''), (''type'', JStr ''root_key''),
               (''extractable'', JBool True)]) ''type'' = JStr ''root_key''"
    by simp
  have b': "lookup_prop (JObj [(''name'', JObj [(''toString'', JStr ''k1'')]), (''type'', JStr ''root_key'')]) ''type'' = JStr ''root_key''"
    by simp
  have c: "env_js (KEY_PROTECT_INSTANCE_ID configured) = JStr ''instance-1''"
    by (simp add: configured_def)
  from create_root_key_is_not_extractable [OF a b] create_root_key_is_not_extractable [OF a b'] a
  show ?thesis
    by (simp add: Let_def c example_platform_simps example_sdk_def opt_prop_def)
qed

text \<open>
  The claim as it was stated fails on what is returned: for
  \<^verbatim>\<open>create({name: "k1", type: "root_key", extractable: true})\<close> the returned key record has no
  \<open>extractable\<close> field (although the backend's answer had one), and its \<open>type\<close> is the
  backend's media type, not a root-key marker.
\<close>

theorem create_root_key_result_counterexample:
  "settled (call_tool configured (example_platform ''v1'') None ''key_protect_create_key''
       (JObj [(''name'', JStr ''k1''), (''type'', JStr ''root_key''),
              (''extractable'', JBool True)]))
   = Inr [\<lparr>item_type = ''text'',
          item_text = Stringified (JObj
            [(''message'', JStr (''Key '' @ dquote @ ''k1'' @ dquote
                                 @ '' created successfully'')),
             (''key'', JObj [(''id'', JStr ''key-7''),
                             (''name'', JStr ''k1''),
                             (''type'', JStr ''application/vnd.ibm.kms.key+json''),
                             (''crn'', JStr ''crn:v1:key-7'')])])\<rparr>]
   \<and> lookup_prop (JObj [(''id'', JStr ''key-7''),
                        (''name'', JStr ''k1''),
                        (''type'', JStr ''application/vnd.ibm.kms.key+json''),
                        (''crn'', JStr ''crn:v1:key-7'')]) ''extractable'' = JUndefined
   \<and> lookup_prop (JObj [(''id'', JStr ''key-7''),
                        (''name'', JStr ''k1''),
                        (''type'', JStr ''application/vnd.ibm.kms.key+json''),
                        (''crn'', JStr ''crn:v1:key-7'')]) ''extractable'' \<noteq> JBool False"
  by (simp add: create_root_key_example)

section \<open>Wrap, unwrap and rotate make no check of the key type\<close>

text \<open>
  Claim C3, as amended. The handlers of wrap, unwrap and rotate do not look at the type of
  the key: with a client handle and an arguments object, each of them issues exactly one
  request to the backend (\<open>wrapKey\<close>, \<open>unwrapKey\<close>, \<open>rotateKey\<close>) for the \<open>key_id\<close> it was
  given, whatever kind of key that names. When the backend rejects the request, as it may
  for a standard key, the result is the diagnostic \<^verbatim>\<open>Error: \<close> followed by the backend's
  message; the module has no error kind of its own for a wrong key type.
\<close>

theorem wrap_unwrap_rotate_reach_the_backend:
  assumes "fst (getKeyProtectClient cfg pf st) = Inr (Some c)"
    and "\<not> nullish args"
  shows "(\<exists>p. calls (call_tool cfg pf st ''key_protect_wrap_key'' args) = [KpCall WrapKey p]
            \<and> lookup_prop p ''id'' = lookup_prop args ''key_id''
            \<and> (\<forall>e. sdk pf c WrapKey p = Inl e \<longrightarrow>
                  settled (call_tool cfg pf st ''key_protect_wrap_key'' args)
                    = Inr [\<lparr>item_type = ''text'', item_text = Plain (''Error: '' @ message e)\<rparr>]))
       \<and> (\<exists>p. calls (call_tool cfg pf st ''key_protect_unwrap_key'' args) = [KpCall UnwrapKey p]
            \<and> lookup_prop p ''id'' = lookup_prop args ''key_id''
            \<and> (\<forall>e. sdk pf c UnwrapKey p = Inl e \<longrightarrow>
                  settled (call_tool cfg pf st ''key_protect_unwrap_key'' args)
                    = Inr [\<lparr>item_type = ''text'', item_text = Plain (''Error: '' @ message e)\<rparr>]))
       \<and> (\<exists>p. calls (call_tool cfg pf st ''key_protect_rotate_key'' args) = [KpCall RotateKey p]
            \<and> lookup_prop p ''id'' = lookup_prop args ''key_id''
            \<and> (\<forall>e. sdk pf c RotateKey p = Inl e \<longrightarrow>
                  settled (call_tool cfg pf st ''key_protect_rotate_key'' args)
                    = Inr [\<lparr>item_type = ''text'', item_text = Plain (''Error: '' @ message e)\<rparr>]))"
proof (intro conjI)
  show "\<exists>p. calls (call_tool cfg pf st ''key_protect_wrap_key'' args) = [KpCall WrapKey p]
            \<and> lookup_prop p ''id'' = lookup_prop args ''key_id''
            \<and> (\<forall>e. sdk pf c WrapKey p = Inl e \<longrightarrow>
                  settled (call_tool cfg pf st ''key_protect_wrap_key'' args)
                    = Inr [\<lparr>item_type = ''text'', item_text = Plain (''Error: '' @ message e)\<rparr>])"
    using call_tool_key_protect [OF assms(1) _ key_protect_switch_eval(4), of args]
    by (simp add: wrap_key_run [OF assms(2)] error_content_def text_content_def)
  show "\<exists>p. calls (call_tool cfg pf st ''key_protect_unwrap_key'' args) = [KpCall UnwrapKey p]
            \<and> lookup_prop p ''id'' = lookup_prop args ''key_id''
            \<and> (\<forall>e. sdk pf c UnwrapKey p = Inl e \<longrightarrow>
                  settled (call_tool cfg pf st ''key_protect_unwrap_key'' args)
                    = Inr [\<lparr>item_type = ''text'', item_text = Plain (''Error: '' @ message e)\<rparr>])"
    using call_tool_key_protect [OF assms(1) _ key_protect_switch_eval(5), of args]
    by (simp add: unwrap_key_run [OF assms(2)] error_content_def text_content_def)
  show "\<exists>p. calls (call_tool cfg pf st ''key_protect_rotate_key'' args) = [KpCall RotateKey p]
            \<and> lookup_prop p ''id'' = lookup_prop args ''key_id''
            \<and> (\<forall>e. sdk pf c RotateKey p = Inl e \<longrightarrow>
                  settled (call_tool cfg pf st ''key_protect_rotate_key'' args)
                    = Inr [\<lparr>item_type = ''text'', item_text = Plain (''Error: '' @ message e)\<rparr>])"
    using call_tool_key_protect [OF assms(1) _ key_protect_switch_eval(6), of args]
    by (simp add: rotate_key_run [OF assms(2)] error_content_def text_content_def)
qed

theorem wrap_unwrap_rotate_reach_the_backend_witness:
  "fst (getKeyProtectClient configured (example_platform ''v1'') None) = Inr (Some example_client)
   \<and> \<not> nullish (JObj [(''key_id'', JStr ''root-1''), (''plaintext'', JStr ''AAAA'')])
   \<and> (\<exists>p. calls (call_tool configured (example_platform ''v1'') None ''key_protect_wrap_key''
               (JObj [(''key_id'', JStr ''root-1''), (''plaintext'', JStr ''AAAA'')]))
             = [KpCall WrapKey p]
           \<and> lookup_prop p ''id'' = JStr ''root-1'')
   \<and> (\<exists>p. calls (call_tool configured (example_platform ''v1'') None ''key_protect_rotate_key''
               (JObj [(''key_id'', JStr ''root-1''), (''plaintext'', JStr ''AAAA'')]))
             = [KpCall RotateKey p]
           \<and> lookup_prop p ''id'' = JStr ''root-1'')"
proof -
  have a: "fst (getKeyProtectClient configured (example_platform ''v1'') None)
             = Inr (Some example_client)"
    by (simp add: example_client_available)
  have b: "\<not> nullish (JObj [(''key_id'', JStr ''root-1''), (''plaintext'', JStr ''AAAA'')])"
    by simp
  from wrap_unwrap_rotate_reach_the_backend [OF a b] a b
  show ?thesis
    by auto
qed

text \<open>
  The claim as it was stated fails: in the example deployment \<^verbatim>\<open>std-1\<close> is a standard key
  (the backend reports it extractable), and wrapping with it does send the request; the
  refusal is the backend's.
\<close>

theorem standard_key_wrap_counterexample:
  "sdk (example_platform ''v1'') example_client GetKey
      (JObj [(''bluemixInstance'', JStr ''instance-1''), (''id'', JStr ''std-1'')])
     = Inr (JObj [(''resources'',
              JArr [JObj [(''id'', JStr ''std-1''), (''name'', JStr ''data-key''),
                          (''extractable'', JBool True)]])])
   \<and> calls (call_tool configured (example_platform ''v1'') None ''key_protect_wrap_key''
        (JObj [(''key_id'', JStr ''std-1''), (''plaintext'', JStr ''AAAA'')]))
      = [KpCall WrapKey (JObj
                 [(''id'', JStr ''std-1''),
                  (''bluemixInstance'', JStr ''instance-1''),
                  (''keyActionWrapBody'', JObj [(''plaintext'', JStr ''AAAA'')])])]
   \<and> calls (call_tool configured (example_platform ''v1'') None ''key_protect_wrap_key''
        (JObj [(''key_id'', JStr ''std-1''), (''plaintext'', JStr ''AAAA'')])) \<noteq> []
   \<and> settled (call_tool configured (example_platform ''v1'') None ''key_protect_wrap_key''
        (JObj [(''key_id'', JStr ''std-1''), (''plaintext'', JStr ''AAAA'')]))
      = Inr [\<lparr>item_type = ''text'',
             item_text = Plain ''Error: Conflict: the key is not a root key''\<rparr>]"
  by (simp add: wrap_standard_key_example example_platform_simps example_sdk_def)

section \<open>The round trip of wrap and unwrap\<close>

text \<open>
  Claim C1, as amended. Wrap forwards \<open>key_id\<close>, \<open>plaintext\<close> and (when truthy) \<open>aad\<close> to
  the backend unaltered and returns the backend's \<open>ciphertext\<close> and \<open>keyVersion\<close>; unwrap
  forwards \<open>key_id\<close>, \<open>ciphertext\<close> and (when truthy) \<open>aad\<close> unaltered, and nothing else,
  and returns the backend's \<open>plaintext\<close> and \<open>keyVersion\<close>. So whenever the backend, at the
  time of the unwrap (\<open>pf2\<close>, possibly after rotations of the key), gives back for the
  ciphertext it produced at the time of the wrap (\<open>pf1\<close>) the plaintext it was given, the
  unwrap operation returns that plaintext. The unwrap arguments \<open>uargs\<close> are arbitrary
  beyond the three fields named: a \<open>keyVersion\<close> among them changes neither the request
  nor the result. Selecting the key version is left to the backend alone.
\<close>

theorem wrap_unwrap_round_trip:
  assumes "fst (getKeyProtectClient cfg pf1 st1) = Inr (Some c1)"
    and "fst (getKeyProtectClient cfg pf2 st2) = Inr (Some c2)"
    and "\<not> nullish wargs" and "\<not> nullish uargs"
    and "lookup_prop uargs ''key_id'' = lookup_prop wargs ''key_id''"
    and "lookup_prop uargs ''aad'' = lookup_prop wargs ''aad''"
    and "sdk pf1 c1 WrapKey (JObj
           [(''id'', lookup_prop wargs ''key_id''),
            (''bluemixInstance'', env_js (KEY_PROTECT_INSTANCE_ID cfg)),
            (''keyActionWrapBody'', JObj
               ([(''plaintext'', lookup_prop wargs ''plaintext'')]
                @ (if truthy (lookup_prop wargs ''aad'')
                   then [(''aad'', lookup_prop wargs ''aad'')] else [])))]) = Inr rw"
    and "\<not> nullish rw"
    and "lookup_prop uargs ''ciphertext'' = lookup_prop rw ''ciphertext''"
    and "sdk pf2 c2 UnwrapKey (JObj
           [(''id'', lookup_prop wargs ''key_id''),
            (''bluemixInstance'', env_js (KEY_PROTECT_INSTANCE_ID cfg)),
            (''keyActionUnwrapBody'', JObj
               ([(''ciphertext'', lookup_prop rw ''ciphertext'')]
                @ (if truthy (lookup_prop wargs ''aad'')
                   then [(''aad'', lookup_prop wargs ''aad'')] else [])))]) = Inr ru"
    and "\<not> nullish ru"
    and "lookup_prop ru ''plaintext'' = lookup_prop wargs ''plaintext''"
  shows "calls (call_tool cfg pf1 st1 ''key_protect_wrap_key'' wargs)
           = [KpCall WrapKey (JObj
               [(''id'', lookup_prop wargs ''key_id''),
                (''bluemixInstance'', env_js (KEY_PROTECT_INSTANCE_ID cfg)),
                (''keyActionWrapBody'', JObj
                   ([(''plaintext'', lookup_prop wargs ''plaintext'')]
                    @ (if truthy (lookup_prop wargs ''aad'')
                       then [(''aad'', lookup_prop wargs ''aad'')] else [])))])]
       \<and> settled (call_tool cfg pf1 st1 ''key_protect_wrap_key'' wargs)
           = Inr [\<lparr>item_type = ''text'',
                  item_text = Stringified (JObj
                    [(''message'', JStr ''Key wrapped successfully''),
                     (''ciphertext'', lookup_prop rw ''ciphertext''),
                     (''keyVersion'', lookup_prop rw ''keyVersion'')])\<rparr>]
       \<and> calls (call_tool cfg pf2 st2 ''key_protect_unwrap_key'' uargs)
           = [KpCall UnwrapKey (JObj
               [(''id'', lookup_prop wargs ''key_id''),
                (''bluemixInstance'', env_js (KEY_PROTECT_INSTANCE_ID cfg)),
                (''keyActionUnwrapBody'', JObj
                   ([(''ciphertext'', lookup_prop rw ''ciphertext'')]
                    @ (if truthy (lookup_prop wargs ''aad'')
                       then [(''aad'', lookup_prop wargs ''aad'')] else [])))])]
       \<and> settled (call_tool cfg pf2 st2 ''key_protect_unwrap_key'' uargs)
           = Inr [\<lparr>item_type = ''text'',
                  item_text = Stringified (JObj
                    [(''message'', JStr ''Key unwrapped successfully''),
                     (''plaintext'', lookup_prop wargs ''plaintext''),
                     (''keyVersion'', lookup_prop ru ''keyVersion'')])\<rparr>]"
proof (intro conjI)
  show "calls (call_tool cfg pf1 st1 ''key_protect_wrap_key'' wargs)
           = [KpCall WrapKey (JObj
               [(''id'', lookup_prop wargs ''key_id''),
                (''bluemixInstance'', env_js (KEY_PROTECT_INSTANCE_ID cfg)),
                (''keyActionWrapBody'', JObj
                   ([(''plaintext'', lookup_prop wargs ''plaintext'')]
                    @ (if truthy (lookup_prop wargs ''aad'')
                       then [(''aad'', lookup_prop wargs ''aad'')] else [])))])]"
    using call_tool_key_protect(2) [OF assms(1) _ key_protect_switch_eval(4), of wargs]
    by (simp add: wrap_key_run [OF assms(3)])
  show "settled (call_tool cfg pf1 st1 ''key_protect_wrap_key'' wargs)
           = Inr [\<lparr>item_type = ''text'',
                  item_text = Stringified (JObj
                    [(''message'', JStr ''Key wrapped successfully''),
                     (''ciphertext'', lookup_prop rw ''ciphertext''),
                     (''keyVersion'', lookup_prop rw ''keyVersion'')])\<rparr>]"
    using call_tool_key_protect(1) [OF assms(1) _ key_protect_switch_eval(4), of wargs]
      assms(7,8)
    by (cases "truthy (lookup_prop wargs ''aad'')")
       (simp_all add: wrap_key_run [OF assms(3)] read_prop_present text_content_def)
  have run: "key_protect_unwrap_key cfg pf2 c2 uargs =
     (Inr (Stringified (JObj
                    [(''message'', JStr ''Key unwrapped successfully''),
                     (''plaintext'', lookup_prop wargs ''plaintext''),
                     (''keyVersion'', lookup_prop ru ''keyVersion'')])),
      [KpCall UnwrapKey (JObj
               [(''id'', lookup_prop wargs ''key_id''),
                (''bluemixInstance'', env_js (KEY_PROTECT_INSTANCE_ID cfg)),
                (''keyActionUnwrapBody'', JObj
                   ([(''ciphertext'', lookup_prop rw ''ciphertext'')]
                    @ (if truthy (lookup_prop wargs ''aad'')
                       then [(''aad'', lookup_prop wargs ''aad'')] else [])))])])"
    using assms(5,6,9,10,11,12)
    by (cases "truthy (lookup_prop wargs ''aad'')")
       (simp_all add: unwrap_key_run [OF assms(4)] read_prop_present)
  show "calls (call_tool cfg pf2 st2 ''key_protect_unwrap_key'' uargs)
           = [KpCall UnwrapKey (JObj
               [(''id'', lookup_prop wargs ''key_id''),
                (''bluemixInstance'', env_js (KEY_PROTECT_INSTANCE_ID cfg)),
                (''keyActionUnwrapBody'', JObj
                   ([(''ciphertext'', lookup_prop rw ''ciphertext'')]
                    @ (if truthy (lookup_prop wargs ''aad'')
                       then [(''aad'', lookup_prop wargs ''aad'')] else [])))])]"
    using call_tool_key_protect(2) [OF assms(2) _ key_protect_switch_eval(5), of uargs]
    by (simp add: run)
  show "settled (call_tool cfg pf2 st2 ''key_protect_unwrap_key'' uargs)
           = Inr [\<lparr>item_type = ''text'',
                  item_text = Stringified (JObj
                    [(''message'', JStr ''Key unwrapped successfully''),
                     (''plaintext'', lookup_prop wargs ''plaintext''),
                     (''keyVersion'', lookup_prop ru ''keyVersion'')])\<rparr>]"
    using call_tool_key_protect(1) [OF assms(2) _ key_protect_switch_eval(5), of uargs]
    by (simp add: run text_content_def)
qed

theorem wrap_unwrap_round_trip_witness:
  "sdk (example_platform ''v1'') example_client WrapKey (JObj
           [(''id'', JStr ''root-1''),
            (''bluemixInstance'', JStr ''instance-1''),
            (''keyActionWrapBody'', JObj [(''plaintext'', JStr ''AAAA'')])])
     = Inr (JObj [(''ciphertext'', JStr ''v1:AAAA''),
                  (''keyVersion'', JObj [(''id'', JStr ''v1'')])])
   \<and> sdk (example_platform ''v2'') example_client UnwrapKey (JObj
           [(''id'', JStr ''root-1''),
            (''bluemixInstance'', JStr ''instance-1''),
            (''keyActionUnwrapBody'', JObj [(''ciphertext'', JStr ''v1:AAAA'')])])
     = Inr (JObj [(''plaintext'', JStr ''AAAA''),
                  (''keyVersion'', JObj [(''id'', JStr ''v1'')])])
   \<and> settled (call_tool configured (example_platform ''v1'') None ''key_protect_wrap_key''
         (JObj [(''key_id'', JStr ''root-1''), (''plaintext'', JStr ''AAAA'')]))
       = Inr [\<lparr>item_type = ''text'',
              item_text = Stringified (JObj
                [(''message'', JStr ''Key wrapped successfully''),
                 (''ciphertext'', JStr ''v1:AAAA''),
                 (''keyVersion'', JObj [(''id'', JStr ''v1'')])])\<rparr>]
   \<and> settled (call_tool configured (example_platform ''v2'') None ''key_protect_unwrap_key''
         (JObj [(''key_id'', JStr ''root-1''), (''ciphertext'', JStr ''v1:AAAA''),
                (''keyVersion'', JObj [(''id'', JStr ''v1'')])]))
       = Inr [\<lparr>item_type = ''text'',
              item_text = Stringified (JObj
                [(''message'', JStr ''Key unwrapped successfully''),
                 (''plaintext'', JStr ''AAAA''),
                 (''keyVersion'', JObj [(''id'', JStr ''v1'')])])\<rparr>]"
proof -
  let ?wargs = "JObj [(''key_id'', JStr ''root-1''), (''plaintext'', JStr ''AAAA'')]"
  let ?uargs = "JObj [(''key_id'', JStr ''root-1''), (''ciphertext'', JStr ''v1:AAAA''),
                (''keyVersion'', JObj [(''id'', JStr ''v1'')])]"
  let ?rw = "JObj [(''ciphertext'', JStr ''v1:AAAA''),
                  (''keyVersion'', JObj [(''id'', JStr ''v1'')])]"
  let ?ru = "JObj [(''plaintext'', JStr ''AAAA''),
                  (''keyVersion'', JObj [(''id'', JStr ''v1'')])]"
  have w: "sdk (example_platform ''v1'') example_client WrapKey (JObj
           [(''id'', JStr ''root-1''),
            (''bluemixInstance'', JStr ''instance-1''),
            (''keyActionWrapBody'', JObj [(''plaintext'', JStr ''AAAA'')])]) = Inr ?rw"
    by (simp add: example_platform_simps example_sdk_def)
  have u: "sdk (example_platform ''v2'') example_client UnwrapKey (JObj
           [(''id'', JStr ''root-1''),
            (''bluemixInstance'', JStr ''instance-1''),
            (''keyActionUnwrapBody'', JObj [(''ciphertext'', JStr ''v1:AAAA'')])]) = Inr ?ru"
    by (simp add: example_platform_simps example_sdk_def)
  have inst: "env_js (KEY_PROTECT_INSTANCE_ID configured) = JStr ''instance-1''"
    by (simp add: configured_def)
  have "calls (call_tool configured (example_platform ''v1'') None ''key_protect_wrap_key'' ?wargs)
           = [KpCall WrapKey (JObj
               [(''id'', lookup_prop ?wargs ''key_id''),
                (''bluemixInstance'', env_js (KEY_PROTECT_INSTANCE_ID configured)),
                (''keyActionWrapBody'', JObj
                   ([(''plaintext'', lookup_prop ?wargs ''plaintext'')]
                    @ (if truthy (lookup_prop ?wargs ''aad'')
                       then [(''aad'', lookup_prop ?wargs ''aad'')] else [])))])]
       \<and> settled (call_tool configured (example_platform ''v1'') None ''key_protect_wrap_key'' ?wargs)
           = Inr [\<lparr>item_type = ''text'',
                  item_text = Stringified (JObj
                    [(''message'', JStr ''Key wrapped successfully''),
                     (''ciphertext'', lookup_prop ?rw ''ciphertext''),
                     (''keyVersion'', lookup_prop ?rw ''keyVersion'')])\<rparr>]
       \<and> calls (call_tool configured (example_platform ''v2'') None ''key_protect_unwrap_key'' ?uargs)
           = [KpCall UnwrapKey (JObj
               [(''id'', lookup_prop ?wargs ''key_id''),
                (''bluemixInstance'', env_js (KEY_PROTECT_INSTANCE_ID configured)),
                (''keyActionUnwrapBody'', JObj
                   ([(''ciphertext'', lookup_prop ?rw ''ciphertext'')]
                    @ (if truthy (lookup_prop ?wargs ''aad'')
                       then [(''aad'', lookup_prop ?wargs ''aad'')] else [])))])]
       \<and> settled (call_tool configured (example_platform ''v2'') None ''key_protect_unwrap_key'' ?uargs)
           = Inr [\<lparr>item_type = ''text'',
                  item_text = Stringified (JObj
                    [(''message'', JStr ''Key unwrapped successfully''),
                     (''plaintext'', lookup_prop ?wargs ''plaintext''),
                     (''keyVersion'', lookup_prop ?ru ''keyVersion'')])\<rparr>]"
    by (rule wrap_unwrap_round_trip [where ?c1.0 = example_client and ?c2.0 = example_client])
       (simp_all add: example_client_available inst w u)
  with w u show ?thesis
    by simp
qed

text \<open>
  The claim as it was stated fails in its last part: unwrap has no \<open>keyVersion\<close> parameter
  and forwards none. A \<open>keyVersion\<close> supplied at unwrap does not reach the backend: the
  request is the same for two different versions, and holds no \<open>keyVersion\<close> at all.
\<close>

theorem unwrap_key_version_counterexample:
  "calls (call_tool configured (example_platform ''v2'') None ''key_protect_unwrap_key''
         (JObj [(''key_id'', JStr ''root-1''), (''ciphertext'', JStr ''v1:AAAA''),
                (''keyVersion'', JStr ''v1'')]))
   = [KpCall UnwrapKey (JObj
           [(''id'', JStr ''root-1''),
            (''bluemixInstance'', JStr ''instance-1''),
            (''keyActionUnwrapBody'', JObj [(''ciphertext'', JStr ''v1:AAAA'')])])]
   \<and> calls (call_tool configured (example_platform ''v2'') None ''key_protect_unwrap_key''
         (JObj [(''key_id'', JStr ''root-1''), (''ciphertext'', JStr ''v1:AAAA''),
                (''keyVersion'', JStr ''v1'')]))
     = calls (call_tool configured (example_platform ''v2'') None ''key_protect_unwrap_key''
         (JObj [(''key_id'', JStr ''root-1''), (''ciphertext'', JStr ''v1:AAAA''),
                (''keyVersion'', JStr ''v2'')]))
   \<and> lookup_prop (JObj
           [(''id'', JStr ''root-1''),
            (''bluemixInstance'', JStr ''instance-1''),
            (''keyActionUnwrapBody'', JObj [(''ciphertext'', JStr ''v1:AAAA'')])])
         ''keyVersion'' = JUndefined
   \<and> lookup_prop (JObj [(''ciphertext'', JStr ''v1:AAAA'')]) ''keyVersion'' = JUndefined"
  by (simp add: unwrap_with_key_version_example)

section \<open>Arguments are passed on as they are\<close>




section \<open>Every call ends in a text content item\<close>

text \<open>
  Claim C5. Every call should end in one content item of type \<^verbatim>\<open>text\<close> whose text is a
  string: a serialized payload or a diagnostic. The handler does settle every call with one
  item of that type, whatever happens, but for \<open>get_key\<close> and \<open>get_key_policies\<close> the
  text is \<^verbatim>\<open>JSON.stringify\<close> of a part of the backend's answer that the handler does not
  look at, and \<^verbatim>\<open>JSON.stringify(undefined, null, 2)\<close> is \<^verbatim>\<open>undefined\<close>, not a string. The
  theorem evaluates the handler on three such calls: \<open>get_key\<close> when the answer has an empty
  list of resources, \<open>get_key\<close> when the answer has no list at all, and \<open>get_key_policies\<close>
  when the response has no result. Each time the SDK has been called and the content item
  has no text.
\<close>

theorem get_key_without_resource_has_no_text:
  "call_tool configured (answering (JObj [(''resources'', JArr [])])) None
       ''key_protect_get_key'' (JObj [(''key_id'', JStr ''key-9'')])
     = \<lparr>settled = Inr [\<lparr>item_type = ''text'', item_text = NoText\<rparr>],
        calls = [KpCall GetKey (JObj [(''bluemixInstance'', JStr ''instance-1''),
                                      (''id'', JStr ''key-9'')])],
        client = Some example_client\<rparr>
   \<and> call_tool configured (answering (JObj [])) None
       ''key_protect_get_key'' (JObj [(''key_id'', JStr ''key-9'')])
     = \<lparr>settled = Inr [\<lparr>item_type = ''text'', item_text = NoText\<rparr>],
        calls = [KpCall GetKey (JObj [(''bluemixInstance'', JStr ''instance-1''),
                                      (''id'', JStr ''key-9'')])],
        client = Some example_client\<rparr>
   \<and> call_tool configured (answering JUndefined) None
       ''key_protect_get_key_policies'' (JObj [(''key_id'', JStr ''key-9'')])
     = \<lparr>settled = Inr [\<lparr>item_type = ''text'', item_text = NoText\<rparr>],
        calls = [KpCall GetKeyMetadata (JObj [(''bluemixInstance'', JStr ''instance-1''),
                                              (''id'', JStr ''key-9'')])],
        client = Some example_client\<rparr>"
proof -
  have handle: "getKeyProtectClient configured (answering v) None
                  = (Inr (Some example_client), Some example_client)" for v
    by (simp add: getKeyProtectClient_def configured_def answering_def example_platform_def
          KEY_PROTECT_URL_def example_client_def Let_def)
  have answer: "sdk (answering v) = (\<lambda>c m p. Inr v)" for v
    by (simp add: answering_def)
  have env: "env_js (KEY_PROTECT_INSTANCE_ID configured) = JStr ''instance-1''"
    by (simp add: configured_def)
  show ?thesis
    using call_tool_key_protect_eq [OF handle _ key_protect_switch_eval(3)]
      call_tool_key_protect_eq [OF handle _ key_protect_switch_eval(8)]
    by (simp add: get_key_run key_protect_get_key_policies_def kp_invoke_Inr read_prop_present
          answer env text_content_def)
qed

section \<open>Placeholders that path_params does not resolve\<close>

text \<open>
  Claim C2, as amended. \<^verbatim>\<open>zos_connect_call_service\<close> does not check the endpoint for
  placeholders left over. With the z/OS Connect URL configured and an arguments object:
  whenever the endpoint can be built, \<^verbatim>\<open>fetch\<close> is called once with the configured URL
  followed by the endpoint, whatever the endpoint holds; the only calls that end without
  \<^verbatim>\<open>fetch\<close> being called are those where building the endpoint throws (a service name, an
  operation or a path parameter that does not convert to a string or cannot be encoded, or
  query parameters that \<^verbatim>\<open>URLSearchParams\<close> refuses), and they end in the diagnostic
  \<^verbatim>\<open>Error: \<close> followed by the message thrown, not in an error for an unresolved
  placeholder. In particular, when the service name and the operation are strings, no key
  of \<open>path_params\<close> (or no \<open>path_params\<close> at all) has its placeholder in the endpoint, the
  values of \<open>path_params\<close> convert and can be encoded, and there are no \<open>query_params\<close>, the
  URL string given to \<^verbatim>\<open>fetch\<close> is the configured URL followed by
  \<^verbatim>\<open>/zosConnect/services/\<close>, the service name and the operation path as given, braces
  included.
\<close>

theorem call_service_sends_the_endpoint_unchecked:
  assumes "env_truthy (ZOS_CONNECT_URL cfg)"
    and "\<not> nullish args"
  shows "(call_service_endpoint pf (lookup_prop args ''service_name'') args = Inr endpoint \<longrightarrow>
            calls (call_tool cfg pf st ''zos_connect_call_service'' args)
              = [Fetch \<lparr>req_url = env_str (ZOS_CONNECT_URL cfg) @ endpoint,
                       req_method = js_or (lookup_prop args ''method'') (JStr ''POST''),
                       req_headers = zos_headers cfg pf,
                       req_body =
                         (if truthy (lookup_prop args ''payload'')
                             \<and> js_or (lookup_prop args ''method'') (JStr ''POST'')
                                 \<in> {JStr ''POST'', JStr ''PUT'', JStr ''PATCH''}
                          then Some (Stringified (lookup_prop args ''payload''))
                          else None)\<rparr>])
       \<and> (call_service_endpoint pf (lookup_prop args ''service_name'') args = Inl e \<longrightarrow>
            calls (call_tool cfg pf st ''zos_connect_call_service'' args) = []
            \<and> settled (call_tool cfg pf st ''zos_connect_call_service'' args)
                = Inr [\<lparr>item_type = ''text'', item_text = Plain (''Error: '' @ message e)\<rparr>])
       \<and> (lookup_prop args ''service_name'' = JStr service
          \<and> lookup_prop args ''operation'' = JStr operation \<and> operation \<noteq> []
          \<and> (\<forall>kv\<in>set (object_entries (lookup_prop args ''path_params'')).
                \<not> includes_str (canonical (''/zosConnect/services/'' @ service @ operation))
                     (''{'' @ fst kv @ ''}'')
                \<and> (\<exists>s. to_string (number_to_string pf) (snd kv) = Inr s
                         \<and> \<not> has_lone_surrogate s))
          \<and> \<not> truthy (lookup_prop args ''query_params'')
          \<longrightarrow> calls (call_tool cfg pf st ''zos_connect_call_service'' args)
                = [Fetch \<lparr>req_url = env_str (ZOS_CONNECT_URL cfg)
                            @ canonical (''/zosConnect/services/'' @ service @ operation),
                       req_method = js_or (lookup_prop args ''method'') (JStr ''POST''),
                       req_headers = zos_headers cfg pf,
                       req_body =
                         (if truthy (lookup_prop args ''payload'')
                             \<and> js_or (lookup_prop args ''method'') (JStr ''POST'')
                                 \<in> {JStr ''POST'', JStr ''PUT'', JStr ''PATCH''}
                          then Some (Stringified (lookup_prop args ''payload''))
                          else None)\<rparr>])"
    (is "(?built \<longrightarrow> ?sent) \<and> (?thrown \<longrightarrow> ?nothing \<and> ?diagnostic)
         \<and> (?unresolved \<longrightarrow> ?sent_as_given)")
proof -
  have sw: "zos_connect_switch cfg pf ''zos_connect_call_service'' args
              = Some (zos_connect_call_service cfg pf args)"
    by (simp add: zos_connect_switch_def)
  have calls: "calls (call_tool cfg pf st ''zos_connect_call_service'' args)
                 = snd (zos_connect_call_service cfg pf args)"
    by (rule call_tool_zos_connect(2) [OF assms(1) _ sw]) simp
  have settled: "settled (call_tool cfg pf st ''zos_connect_call_service'' args)
                 = Inr (case fst (zos_connect_call_service cfg pf args) of
                          Inl e \<Rightarrow> error_content e | Inr t \<Rightarrow> text_content t)"
    by (rule call_tool_zos_connect(1) [OF assms(1) _ sw]) simp
  have sent: "calls (call_tool cfg pf st ''zos_connect_call_service'' args)
              = [Fetch \<lparr>req_url = env_str (ZOS_CONNECT_URL cfg) @ ep,
                       req_method = js_or (lookup_prop args ''method'') (JStr ''POST''),
                       req_headers = zos_headers cfg pf,
                       req_body =
                         (if truthy (lookup_prop args ''payload'')
                             \<and> js_or (lookup_prop args ''method'') (JStr ''POST'')
                                 \<in> {JStr ''POST'', JStr ''PUT'', JStr ''PATCH''}
                          then Some (Stringified (lookup_prop args ''payload''))
                          else None)\<rparr>]"
    if "call_service_endpoint pf (lookup_prop args ''service_name'') args = Inr ep" for ep
    using that
    by (cases "lookup_prop args ''payload'' = JUndefined")
       (simp_all add: calls call_service_one_call [OF assms] zos_request_def)
  have first: "?built \<longrightarrow> ?sent"
    using sent by blast
  have second: "?thrown \<longrightarrow> ?nothing \<and> ?diagnostic"
    using assms(2)
    by (simp add: calls settled zos_connect_call_service_def read_prop_present
          error_content_def text_content_def)
  have third: "?unresolved \<longrightarrow> ?sent_as_given"
  proof (rule impI)
    assume h: "?unresolved"
    then have "substitute_path_params (number_to_string pf)
                    (canonical (''/zosConnect/services/'' @ service @ operation))
                    (lookup_prop args ''path_params'')
                 = Inr (canonical (''/zosConnect/services/'' @ service @ operation))"
      by (intro substitute_path_params_absent) blast
    with h have "call_service_endpoint pf (lookup_prop args ''service_name'') args
                   = Inr (canonical (''/zosConnect/services/'' @ service @ operation))"
      by (simp add: call_service_endpoint_def js_or_def)
    then show "?sent_as_given"
      by (rule sent)
  qed
  show ?thesis
    by (intro conjI first second third)
qed

theorem call_service_sends_the_endpoint_unchecked_witness:
  "env_truthy (ZOS_CONNECT_URL configured)
   \<and> \<not> nullish (JObj [(''service_name'', JStr ''svc''),
                        (''operation'', JStr ''/customers/{id}''),
                        (''path_params'', JObj [(''name'', JStr ''x'')])])
   \<and> \<not> includes_str (canonical (''/zosConnect/services/'' @ ''svc'' @ ''/customers/{id}''))
         (''{'' @ ''name'' @ ''}'')
   \<and> to_string (number_to_string (example_platform ''v1'')) (JStr ''x'') = Inr ''x''
   \<and> \<not> has_lone_surrogate ''x''
   \<and> calls (call_tool configured (example_platform ''v1'') None ''zos_connect_call_service''
         (JObj [(''service_name'', JStr ''svc''),
                        (''operation'', JStr ''/customers/{id}''),
                        (''path_params'', JObj [(''name'', JStr ''x'')])]))
       = [Fetch \<lparr>req_url = ''https://zos.example:9443/zosConnect/services/svc/customers/{id}'',
                 req_method = JStr ''POST'',
                 req_headers = [(''Content-Type'', ''application/json''),
                                (''Accept'', ''application/json'')],
                 req_body = None\<rparr>]
   \<and> \<not> nullish (JObj [(''service_name'', JObj [(''toString'', JStr ''svc'')]),
                        (''operation'', JStr ''/customers/{id}'')])
   \<and> call_service_endpoint (example_platform ''v1'')
         (lookup_prop (JObj [(''service_name'', JObj [(''toString'', JStr ''svc'')]),
                        (''operation'', JStr ''/customers/{id}'')]) ''service_name'')
         (JObj [(''service_name'', JObj [(''toString'', JStr ''svc'')]),
                        (''operation'', JStr ''/customers/{id}'')])
       = Inl (TypeError ''Cannot convert object to primitive value'')
   \<and> calls (call_tool configured (example_platform ''v1'') None ''zos_connect_call_service''
         (JObj [(''service_name'', JObj [(''toString'', JStr ''svc'')]),
                        (''operation'', JStr ''/customers/{id}'')])) = []
   \<and> settled (call_tool configured (example_platform ''v1'') None ''zos_connect_call_service''
         (JObj [(''service_name'', JObj [(''toString'', JStr ''svc'')]),
                        (''operation'', JStr ''/customers/{id}'')]))
       = Inr [\<lparr>item_type = ''text'',
              item_text = Plain ''Error: Cannot convert object to primitive value''\<rparr>]"
proof -
  let ?args = "JObj [(''service_name'', JStr ''svc''),
                        (''operation'', JStr ''/customers/{id}''),
                        (''path_params'', JObj [(''name'', JStr ''x'')])]"
  let ?bad = "JObj [(''service_name'', JObj [(''toString'', JStr ''svc'')]),
                        (''operation'', JStr ''/customers/{id}'')]"
  have a: "env_truthy (ZOS_CONNECT_URL configured)"
    by (simp add: configured_def)
  have b: "\<not> nullish ?args" and b': "\<not> nullish ?bad"
    by simp_all
  have c: "\<not> includes_str (canonical (''/zosConnect/services/'' @ ''svc'' @ ''/customers/{id}''))
             (''{'' @ ''name'' @ ''}'')"
    by (simp add: includes_str_def canonical_plain)
  have d: "\<not> has_lone_surrogate ''x''"
    by simp
  have e: "call_service_endpoint (example_platform ''v1'') (lookup_prop ?bad ''service_name'') ?bad
             = Inl (TypeError ''Cannot convert object to primitive value'')"
    by (simp add: call_service_endpoint_def)
  have env: "env_str (ZOS_CONNECT_URL configured) = ''https://zos.example:9443''"
    "zos_headers configured (example_platform ''v1'')
       = [(''Content-Type'', ''application/json''), (''Accept'', ''application/json'')]"
    by (simp_all add: configured_def zos_headers_def)
  from call_service_sends_the_endpoint_unchecked [OF a b, where pf = "example_platform ''v1''"
         and st = None and service = "''svc''" and operation = "''/customers/{id}''"]
       call_service_sends_the_endpoint_unchecked [OF a b', where pf = "example_platform ''v1''"
         and st = None
         and e = "TypeError ''Cannot convert object to primitive value''"]
       a c d e
  show ?thesis
    by (simp add: env js_or_def canonical_plain)
qed

text \<open>
  The claim as it was stated fails: for the operation \<^verbatim>\<open>/customers/{id}\<close> without
  \<open>path_params\<close>, \<^verbatim>\<open>fetch\<close> is called with a URL string that holds the placeholder with its
  braces, and the call reports success.
\<close>

theorem unresolved_placeholder_counterexample:
  "lookup_prop (JObj [(''service_name'', JStr ''svc''),
                      (''operation'', JStr ''/customers/{id}'')]) ''path_params'' = JUndefined
   \<and> calls (call_tool configured (example_platform ''v1'') None ''zos_connect_call_service''
        (JObj [(''service_name'', JStr ''svc''), (''operation'', JStr ''/customers/{id}'')]))
      = [Fetch \<lparr>req_url = ''https://zos.example:9443/zosConnect/services/svc/customers/{id}'',
                req_method = JStr ''POST'',
                req_headers = [(''Content-Type'', ''application/json''),
                               (''Accept'', ''application/json'')],
                req_body = None\<rparr>]
   \<and> includes_str ''https://zos.example:9443/zosConnect/services/svc/customers/{id}'' ''{id}''
   \<and> settled (call_tool configured (example_platform ''v1'') None ''zos_connect_call_service''
        (JObj [(''service_name'', JStr ''svc''), (''operation'', JStr ''/customers/{id}'')]))
      = Inr [\<lparr>item_type = ''text'',
             item_text = Stringified (JObj
               [(''service'', JStr ''svc''),
                (''operation'', JStr ''/customers/{id}''),
                (''method'', JStr ''POST''),
                (''response'', JObj [])])\<rparr>]"
  by (simp add: call_service_unresolved_example includes_str_def)

section \<open>A placeholder that occurs twice\<close>

text \<open>
  Claim C7. The substitution loop calls \<^verbatim>\<open>replace\<close> with a string pattern, which replaces
  the first occurrence only: of two occurrences of \<^verbatim>\<open>{id}\<close> the second one stays in the
  endpoint and is sent to the gateway. The theorem evaluates the handler on such a call.
\<close>

theorem repeated_placeholder_is_replaced_once:
  "substitute_path_params (number_to_string (example_platform ''v1''))
      ''/zosConnect/services/svc/a/{id}/b/{id}'' (JObj [(''id'', JStr ''7'')])
     = Inr ''/zosConnect/services/svc/a/7/b/{id}''
   \<and> calls (call_tool configured (example_platform ''v1'') None ''zos_connect_call_service''
        (JObj [(''service_name'', JStr ''svc''), (''operation'', JStr ''/a/{id}/b/{id}''),
               (''path_params'', JObj [(''id'', JStr ''7'')])]))
      = [Fetch \<lparr>req_url = ''https://zos.example:9443/zosConnect/services/svc/a/7/b/{id}'',
                req_method = JStr ''POST'',
                req_headers = [(''Content-Type'', ''application/json''),
                               (''Accept'', ''application/json'')],
                req_body = None\<rparr>]"
  by (simp add: call_service_repeated_example substitute_path_params_def substitute_one_def
        js_replace_def encodeURIComponent_def uri_unreserved_def quote_def canonical_plain)

section \<open>Further properties of the handler\<close>

text \<open>
  One step of the substitution loop. When the placeholder of a key occurs in the endpoint,
  \<open>find_split\<close> gives its first occurrence (no occurrence starts earlier), and when the value
  converts to a string that can be encoded, the step replaces exactly that occurrence with
  the encoded string: the encoded text holds no \<^verbatim>\<open>$\<close>, so \<^verbatim>\<open>replace\<close> takes it literally.
  Everything after the first occurrence is left as it is.
\<close>

theorem substitute_one_replaces_first_occurrence:
  assumes "find_split (''{'' @ key @ ''}'') endpoint = Some (pre, post)"
    and "to_string shown v = Inr s"
    and "encodeURIComponent s = Inr encoded"
  shows "endpoint = pre @ ''{'' @ key @ ''}'' @ post
       \<and> (\<forall>pre' post'. endpoint = pre' @ ''{'' @ key @ ''}'' @ post'
                        \<longrightarrow> length pre \<le> length pre')
       \<and> substitute_one shown endpoint (key, v) = Inr (canonical (pre @ encoded @ post))"
proof (intro conjI allI impI)
  show "endpoint = pre @ ''{'' @ key @ ''}'' @ post"
    using find_split_sound [OF assms(1)] by simp
  show "length pre \<le> length pre'" if "endpoint = pre' @ ''{'' @ key @ ''}'' @ post'"
    for pre' post'
    using find_split_first [OF assms(1), of pre' post'] that by simp
  show "substitute_one shown endpoint (key, v) = Inr (canonical (pre @ encoded @ post))"
    using assms
    by (simp add: substitute_one_def js_replace_def get_substitution_plain
          encodeURIComponent_no_dollar)
qed

theorem substitute_one_replaces_first_occurrence_witness:
  "find_split (''{'' @ ''id'' @ ''}'') ''/a/{id}/b/{id}'' = Some (''/a/'', ''/b/{id}'')
   \<and> to_string (\<lambda>q. []) (JStr ''x y'') = Inr ''x y''
   \<and> encodeURIComponent ''x y'' = Inr ''x%20y''
   \<and> substitute_one (\<lambda>q. []) ''/a/{id}/b/{id}'' (''id'', JStr ''x y'') = Inr ''/a/x%20y/b/{id}''"
proof -
  have a: "find_split (''{'' @ ''id'' @ ''}'') ''/a/{id}/b/{id}'' = Some (''/a/'', ''/b/{id}'')"
    by simp
  have b: "to_string (\<lambda>q. []) (JStr ''x y'') = Inr ''x y''"
    by simp
  have c: "encodeURIComponent ''x y'' = Inr ''x%20y''"
    by (simp add: encodeURIComponent_def uri_unreserved_def quote_def percent_byte_def
          hex_char_def)
  from substitute_one_replaces_first_occurrence [OF a b c] a b c
  show ?thesis
    by (simp add: canonical_plain)
qed

text \<open>
  The handler never rejects: whatever the name, the arguments (absent arguments included),
  the configuration, the handle state and the answers of the backends, the call settles
  with exactly one content item of type \<^verbatim>\<open>text\<close>. Every exception raised inside the
  handler is raised inside the \<^verbatim>\<open>try\<close> block and ends as the text \<^verbatim>\<open>Error: \<close> followed by
  its message.
\<close>

theorem call_tool_never_rejects:
  "\<exists>t. settled (call_tool cfg pf st name args) = Inr [\<lparr>item_type = ''text'', item_text = t\<rparr>]"
proof -
  obtain r cs st' where tb: "try_block cfg pf st name args = ((r, cs), st')"
    by (cases "try_block cfg pf st name args") auto
  show ?thesis
  proof (cases r)
    case (Inl e)
    with tb show ?thesis
      by (simp add: call_tool_def error_content_def text_content_def)
  next
    case (Inr content)
    with tb have "fst (fst (try_block cfg pf st name args)) = Inr content"
      by simp
    from try_block_content [OF this] tb Inr show ?thesis
      by (auto simp: call_tool_def text_content_def)
  qed
qed

text \<open>
  What the list operation sends for every number the caller can supply. With a client
  handle and an arguments object, \<open>limit\<close> is the caller's number when one is supplied and is
  not zero, and 100 when the caller supplies none or supplies 0; \<open>offset\<close> is the caller's
  number whenever one is supplied (0 included) and 0 when none is. The handler looks neither
  at the sign nor at whether the number is whole.
\<close>

theorem list_keys_limit_and_offset:
  assumes "fst (getKeyProtectClient cfg pf st) = Inr (Some c)"
    and "\<not> nullish args"
    and "lookup_prop args ''limit'' = (case limit of None \<Rightarrow> JUndefined | Some n \<Rightarrow> JNum n)"
    and "lookup_prop args ''offset'' = (case offset of None \<Rightarrow> JUndefined | Some m \<Rightarrow> JNum m)"
  shows "calls (call_tool cfg pf st ''key_protect_list_keys'' args) =
     [KpCall GetKeys (JObj
        [(''bluemixInstance'', env_js (KEY_PROTECT_INSTANCE_ID cfg)),
         (''limit'', JNum (case limit of None \<Rightarrow> 100 | Some n \<Rightarrow> if n = 0 then 100 else n)),
         (''offset'', JNum (case offset of None \<Rightarrow> 0 | Some m \<Rightarrow> m)),
         (''state'', lookup_prop args ''state'')])]"
proof -
  have sw: "key_protect_switch cfg pf c ''key_protect_list_keys'' args
              = Some (key_protect_list_keys cfg pf c args)"
    by (simp add: key_protect_switch_def)
  have "calls (call_tool cfg pf st ''key_protect_list_keys'' args)
          = snd (key_protect_list_keys cfg pf c args)"
    by (rule call_tool_key_protect(2) [OF assms(1) _ sw]) simp
  also have "\<dots> = [KpCall GetKeys (JObj
        [(''bluemixInstance'', env_js (KEY_PROTECT_INSTANCE_ID cfg)),
         (''limit'', JNum (case limit of None \<Rightarrow> 100 | Some n \<Rightarrow> if n = 0 then 100 else n)),
         (''offset'', JNum (case offset of None \<Rightarrow> 0 | Some m \<Rightarrow> m)),
         (''state'', lookup_prop args ''state'')])]"
    using assms(2,3,4)
    by (simp add: key_protect_list_keys_def read_prop_present kp_invoke_Inr js_or_def
          split: option.splits)
  finally show ?thesis .
qed

theorem list_keys_limit_and_offset_witness:
  "fst (getKeyProtectClient configured (example_platform ''v1'') None) = Inr (Some example_client)
   \<and> \<not> nullish (JObj [(''limit'', JNum 25), (''offset'', JNum 0)])
   \<and> calls (call_tool configured (example_platform ''v1'') None ''key_protect_list_keys''
        (JObj [(''limit'', JNum 25), (''offset'', JNum 0)])) =
     [KpCall GetKeys (JObj
        [(''bluemixInstance'', JStr ''instance-1''),
         (''limit'', JNum 25),
         (''offset'', JNum 0),
         (''state'', JUndefined)])]"
proof -
  have a: "fst (getKeyProtectClient configured (example_platform ''v1'') None)
             = Inr (Some example_client)"
    by (simp add: example_client_available)
  have b: "\<not> nullish (JObj [(''limit'', JNum 25), (''offset'', JNum 0)])"
    by simp
  from list_keys_limit_and_offset [OF a b, where limit = "Some 25" and offset = "Some 0"] a
  show ?thesis
    by (simp add: configured_def)
qed

text \<open>
  The Key Protect client handle is created at most once: once the module variable holds a
  handle, every call returns that handle and leaves it in place.
\<close>

theorem client_handle_is_reused:
  "getKeyProtectClient cfg pf (Some c) = (Inr (Some c), Some c)
   \<and> client (call_tool cfg pf (Some c) name args) = Some c"
  by (simp add: client_call_tool getKeyProtectClient_def)

text \<open>
  A GET or DELETE request to z/OS Connect carries no body, whatever payload the caller
  supplied.
\<close>

theorem get_and_delete_carry_no_body:
  "req_body (zos_request cfg pf endpoint (JStr ''GET'') body) = None
   \<and> req_body (zos_request cfg pf endpoint (JStr ''DELETE'') body) = None"
  by (simp add: zos_request_def)

end
